theory Spec2Isabelle
  imports Complex_Main
begin

section \<open>Data model\<close>

text \<open>
  The plant simulation of \<^verbatim>\<open>services/mockSimulation.ts\<close> and the control store of
  \<^verbatim>\<open>services/api.ts\<close>. A JavaScript \<^verbatim>\<open>number\<close> is modelled as a \<^typ>\<open>real\<close>: arithmetic is
  exact, and neither rounding nor NaN/Infinity is represented.
\<close>

text \<open>The module variable \<^verbatim>\<open>physicsState\<close> (internal physics state with damage tracking).\<close>

record physics_state =
  Q_wellfield :: real
  Q_feed :: real
  Q_out :: real
  level_feed_tank :: real
  level_clearwell :: real
  pressure_well :: real
  pressure_feed :: real
  pressure_dist :: real
  TDS_feed :: real
  pH_true :: real
  Cl_true :: real
  H2S_feed :: real
  membrane_health :: real
  pump_well_health :: real
  pump_feed_health :: real
  pump_dist_health :: real
  pipe_well_health :: real
  pipe_feed_health :: real
  pipe_dist_health :: real

text \<open>The interface \<^verbatim>\<open>SimulationControls\<close> of \<^verbatim>\<open>types.ts\<close>.\<close>

record SimulationControls =
  wellfield_on :: bool
  ro_feed_pump_on :: bool
  dist_pump_on :: bool
  valve_101_open :: bool
  valve_201_open :: bool
  valve_202_open :: bool
  valve_203_open :: bool
  valve_401_open :: bool
  naoh_pump_on :: bool
  cl_pump_on :: bool
  NaOH_dose :: real
  Cl_dose :: real
  Q_out_sp :: real

text \<open>
  The interface \<^verbatim>\<open>SimulationState\<close> of \<^verbatim>\<open>types.ts\<close>, the published snapshot. Its fields carry
  the suffix \<open>_pub\<close> to keep them apart from the fields of the physics state.
\<close>

record SimulationState =
  Q_wellfield_pub :: real
  Q_feed_pub :: real
  Q_perm_pub :: real
  Q_brine_pub :: real
  Q_out_pub :: real
  level_feed_tank_pub :: real
  level_clearwell_pub :: real
  V_clearwell_pub :: real
  TDS_feed_pub :: real
  TDS_perm_pub :: real
  pH_true_pub :: real
  Cl_true_pub :: real
  H2S_feed_pub :: real
  H2S_out_pub :: real
  pressure_well_pub :: real
  dP_ro_true_pub :: real
  pressure_feed_pub :: real
  pressure_dist_pub :: real
  membrane_health_pub :: real
  pump_well_health_pub :: real
  pump_feed_health_pub :: real
  pump_dist_health_pub :: real
  pipe_well_health_pub :: real
  pipe_feed_health_pub :: real
  pipe_dist_health_pub :: real

section \<open>Cold-start values\<close>

text \<open>The initialiser of \<^verbatim>\<open>physicsState\<close> in \<^verbatim>\<open>mockSimulation.ts\<close>.\<close>

definition physicsState_init :: physics_state where
  "physicsState_init = \<lparr>
     Q_wellfield = 0, Q_feed = 0, Q_out = 0,
     level_feed_tank = 2.5, level_clearwell = 3.0,
     pressure_well = 0.0, pressure_feed = 0.0, pressure_dist = 0.0,
     TDS_feed = 1250, pH_true = 7.2, Cl_true = 0.0, H2S_feed = 2.5,
     membrane_health = 100.0, pump_well_health = 100.0, pump_feed_health = 100.0,
     pump_dist_health = 100.0, pipe_well_health = 100.0, pipe_feed_health = 100.0,
     pipe_dist_health = 100.0 \<rparr>"

text \<open>The initialiser of \<^verbatim>\<open>PlantApi.currentControls\<close> in \<^verbatim>\<open>api.ts\<close> (default valves open).\<close>

definition currentControls_init :: SimulationControls where
  "currentControls_init = \<lparr>
     wellfield_on = False, ro_feed_pump_on = False, dist_pump_on = False,
     valve_101_open = True, valve_201_open = True, valve_202_open = True,
     valve_203_open = True, valve_401_open = True,
     naoh_pump_on = False, cl_pump_on = False,
     NaOH_dose = 5.0, Cl_dose = 1.0, Q_out_sp = 80.0 \<rparr>"

text \<open>
  The two \<^verbatim>\<open>useState\<close> initialisers of the \<^verbatim>\<open>App\<close> component: the placeholder snapshot and
  the placeholder controls shown until the first payload of the API arrives (the source
  comments: default closed on init for safety until API connects).
\<close>

definition App_simState_init :: SimulationState where
  "App_simState_init = \<lparr>
     Q_wellfield_pub = 0, Q_feed_pub = 0, Q_perm_pub = 0, Q_brine_pub = 0, Q_out_pub = 0,
     level_feed_tank_pub = 0, level_clearwell_pub = 0, V_clearwell_pub = 0,
     TDS_feed_pub = 0, TDS_perm_pub = 0, pH_true_pub = 7.0, Cl_true_pub = 0.0,
     H2S_feed_pub = 0, H2S_out_pub = 0,
     pressure_well_pub = 0, dP_ro_true_pub = 0, pressure_feed_pub = 0, pressure_dist_pub = 0,
     membrane_health_pub = 100, pump_well_health_pub = 100, pump_feed_health_pub = 100,
     pump_dist_health_pub = 100, pipe_well_health_pub = 100, pipe_feed_health_pub = 100,
     pipe_dist_health_pub = 100 \<rparr>"

definition App_controls_init :: SimulationControls where
  "App_controls_init = \<lparr>
     wellfield_on = False, ro_feed_pump_on = False, dist_pump_on = False,
     valve_101_open = False, valve_201_open = False, valve_202_open = False,
     valve_203_open = False, valve_401_open = False,
     naoh_pump_on = False, cl_pump_on = False,
     NaOH_dose = 0, Cl_dose = 0, Q_out_sp = 0 \<rparr>"

section \<open>Physics constants\<close>

definition TANK_AREA_FEED :: real where "TANK_AREA_FEED = 10"
definition TANK_AREA_CLEARWELL :: real where "TANK_AREA_CLEARWELL = 40"
definition WELL_FLOW_RATE :: real where "WELL_FLOW_RATE = 110"
definition RO_FEED_RATE :: real where "RO_FEED_RATE = 100"
definition DIST_PUMP_CAPACITY :: real where "DIST_PUMP_CAPACITY = 120"
definition RAMP_RATE :: real where "RAMP_RATE = 0.1"
definition MAX_FEED_PRESSURE :: real where "MAX_FEED_PRESSURE = 15.0"
definition MEMBRANE_CHLORINE_LIMIT :: real where "MEMBRANE_CHLORINE_LIMIT = 0.1"

section \<open>resetDamage\<close>

text \<open>
  \<^verbatim>\<open>resetDamage\<close> assigns the seven health fields of \<^verbatim>\<open>physicsState\<close>. Its request to the
  Python twin (\<^verbatim>\<open>POST /reset_damage\<close>) acts on another process and is not part of this state.
\<close>

definition resetDamage :: "physics_state \<Rightarrow> physics_state" where
  "resetDamage ps =
     (let ps = ps\<lparr>membrane_health := 100.0\<rparr>;
          ps = ps\<lparr>pump_well_health := 100.0\<rparr>;
          ps = ps\<lparr>pump_feed_health := 100.0\<rparr>;
          ps = ps\<lparr>pump_dist_health := 100.0\<rparr>;
          ps = ps\<lparr>pipe_well_health := 100.0\<rparr>;
          ps = ps\<lparr>pipe_feed_health := 100.0\<rparr>;
          ps = ps\<lparr>pipe_dist_health := 100.0\<rparr>
      in ps)"

section \<open>simulatePhysics\<close>

text \<open>
  One call of \<^verbatim>\<open>simulatePhysics(controls, dt_seconds)\<close> reads and assigns the module variable
  \<^verbatim>\<open>physicsState\<close> and returns a snapshot. The model passes the physics state in and out. The
  blocks of the function body are given in source order, each as a function of the state at
  that point; \<open>simulatePhysics\<close> below chains them.
\<close>

subsection \<open>1. Logic targets and pump damage\<close>

text \<open>Wellfield with pressure logic: \<open>(target_Q_well, target_P_well)\<close>.\<close>

definition well_targets :: "SimulationControls \<Rightarrow> real \<times> real" where
  "well_targets c =
     (if wellfield_on c then
        (if valve_101_open c then (WELL_FLOW_RATE, 3.0) else (0, 12.0))
      else (0, 0))"

text \<open>
  P-201 cavitation damage, P-101 deadhead damage, P-401 cavitation and deadhead damage; every
  \<^verbatim>\<open>Math.max(0, h - rate * dt_seconds)\<close> assignment in source order.
\<close>

definition pump_damage :: "physics_state \<Rightarrow> SimulationControls \<Rightarrow> bool \<Rightarrow> real \<Rightarrow> physics_state" where
  "pump_damage ps c suction_head_ok dt =
     (let ps = (if ro_feed_pump_on c \<and> \<not> suction_head_ok
                then ps\<lparr>pump_feed_health := max 0 (pump_feed_health ps - (0.5 * dt))\<rparr> else ps);
          ps = (if wellfield_on c \<and> \<not> valve_101_open c
                then ps\<lparr>pump_well_health := max 0 (pump_well_health ps - (0.3 * dt))\<rparr> else ps);
          ps = (if dist_pump_on c then
                  (let ps = (if level_clearwell ps < 0.2
                             then ps\<lparr>pump_dist_health := max 0 (pump_dist_health ps - (0.5 * dt))\<rparr>
                             else ps);
                       ps = (if \<not> valve_401_open c
                             then ps\<lparr>pump_dist_health := max 0 (pump_dist_health ps - (0.3 * dt))\<rparr>
                             else ps)
                   in ps)
                else ps)
      in ps)"

text \<open>RO system logic: \<open>(target_Q_feed, target_P_feed)\<close>.\<close>

definition feed_targets :: "SimulationControls \<Rightarrow> bool \<Rightarrow> bool \<Rightarrow> real \<Rightarrow> real \<times> real" where
  "feed_targets c suction_head_ok discharge_path_open pump_efficiency =
     (if ro_feed_pump_on c \<and> suction_head_ok then
        (if discharge_path_open then
           (if valve_202_open c \<and> valve_203_open c
            then (RO_FEED_RATE * pump_efficiency, 12.0)
            else (0, MAX_FEED_PRESSURE * 2.0))
         else (0, MAX_FEED_PRESSURE * 2.2))
      else (0, 0))"

text \<open>Distribution with pressure logic: \<open>(target_Q_dist, target_P_dist)\<close>.\<close>

definition dist_targets :: "physics_state \<Rightarrow> SimulationControls \<Rightarrow> real \<times> real" where
  "dist_targets ps c =
     (if dist_pump_on c \<and> level_clearwell ps > 0.1 then
        (if valve_401_open c then (min (Q_out_sp c) DIST_PUMP_CAPACITY, 4.0) else (0, 15.0))
      else (0, 0))"

subsection \<open>2. Physics ramps and pipe damage\<close>

definition apply_ramps ::
  "physics_state \<Rightarrow> real \<times> real \<Rightarrow> real \<times> real \<Rightarrow> real \<times> real \<Rightarrow> physics_state" where
  "apply_ramps ps well_t feed_t dist_t =
     (let ps = ps\<lparr>Q_wellfield := Q_wellfield ps + (fst well_t - Q_wellfield ps) * RAMP_RATE\<rparr>;
          ps = ps\<lparr>Q_feed := Q_feed ps + (fst feed_t - Q_feed ps) * RAMP_RATE\<rparr>;
          ps = ps\<lparr>Q_out := Q_out ps + (fst dist_t - Q_out ps) * RAMP_RATE\<rparr>;
          ps = ps\<lparr>pressure_well := pressure_well ps + (snd well_t - pressure_well ps) * 0.5\<rparr>;
          ps = ps\<lparr>pressure_feed := pressure_feed ps + (snd feed_t - pressure_feed ps) * 0.5\<rparr>;
          ps = ps\<lparr>pressure_dist := pressure_dist ps + (snd dist_t - pressure_dist ps) * 0.5\<rparr>
      in ps)"

text \<open>Pipe damage from overpressure, read from the pressures just ramped.\<close>

definition pipe_damage :: "physics_state \<Rightarrow> real \<Rightarrow> physics_state" where
  "pipe_damage ps dt =
     (let ps = (if pressure_well ps > 10
                then ps\<lparr>pipe_well_health := max 0 (pipe_well_health ps - (0.2 * dt))\<rparr> else ps);
          ps = (if pressure_feed ps > 20
                then ps\<lparr>pipe_feed_health := max 0 (pipe_feed_health ps - (0.5 * dt))\<rparr> else ps);
          ps = (if pressure_dist ps > 12
                then ps\<lparr>pipe_dist_health := max 0 (pipe_dist_health ps - (0.3 * dt))\<rparr> else ps)
      in ps)"

subsection \<open>3. Chemistry and membrane damage\<close>

definition chlorine :: "physics_state \<Rightarrow> SimulationControls \<Rightarrow> physics_state" where
  "chlorine ps c =
     (let current_Cl =
            (if cl_pump_on c then
               (if Q_feed ps > 5 then max 0 (Cl_dose c * 0.9)
                else if Cl_dose c > 0 then 50.0
                else 0)
             else 0)
      in ps\<lparr>Cl_true := Cl_true ps + (current_Cl - Cl_true ps) * 0.1\<rparr>)"

definition membrane_damage :: "physics_state \<Rightarrow> real \<Rightarrow> physics_state" where
  "membrane_damage ps dt =
     (let ps = (if Cl_true ps > MEMBRANE_CHLORINE_LIMIT \<and> Q_feed ps > 0
                then ps\<lparr>membrane_health := max 0 (membrane_health ps - (0.2 * dt))\<rparr> else ps);
          ps = (if pressure_feed ps > 20.0
                then ps\<lparr>membrane_health := max 0 (membrane_health ps - (1.0 * dt))\<rparr> else ps)
      in ps)"

subsection \<open>4. Mass balance (level integration)\<close>

text \<open>
  The fixed RO recovery ratio, a local constant of the function. The local flag
  \<^verbatim>\<open>is_overflowing_feed\<close> is assigned and never read; it is left out.
\<close>

definition ro_recovery :: real where "ro_recovery = 0.75"

definition feed_tank_balance :: "physics_state \<Rightarrow> real \<Rightarrow> physics_state" where
  "feed_tank_balance ps dt =
     (let dV_feed = (Q_wellfield ps - Q_feed ps) * (dt / 3600);
          ps = ps\<lparr>level_feed_tank := level_feed_tank ps + dV_feed / TANK_AREA_FEED\<rparr>;
          ps = (if level_feed_tank ps > 5.0 then ps\<lparr>level_feed_tank := 5.0\<rparr> else ps);
          ps = (if level_feed_tank ps < 0 then ps\<lparr>level_feed_tank := 0\<rparr> else ps)
      in ps)"

definition clearwell_balance :: "physics_state \<Rightarrow> real \<Rightarrow> real \<Rightarrow> physics_state" where
  "clearwell_balance ps Q_perm_actual dt =
     (let dV_clear = (Q_perm_actual - Q_out ps) * (dt / 3600);
          ps = ps\<lparr>level_clearwell := level_clearwell ps + dV_clear / TANK_AREA_CLEARWELL\<rparr>;
          ps = (if level_clearwell ps > 6.0 then ps\<lparr>level_clearwell := 6.0\<rparr> else ps);
          ps = (if level_clearwell ps < 0 then ps\<lparr>level_clearwell := 0\<rparr> else ps)
      in ps)"

subsection \<open>5. Derived values and sensor noise\<close>

text \<open>
  \<^verbatim>\<open>Math.random()\<close> is a stream \<open>rnd\<close> of draws, consumed in evaluation order: \<open>rnd k\<close> is the
  \<open>k\<close>-th draw of this call, and each emitter returns the number of draws made so far.
  \<^verbatim>\<open>noise(mag)\<close> is \<^verbatim>\<open>(Math.random() - 0.5) * mag\<close>.
\<close>

definition noise :: "(nat \<Rightarrow> real) \<Rightarrow> nat \<Rightarrow> real \<Rightarrow> real" where
  "noise rnd k mag = (rnd k - 0.5) * mag"

text \<open>
  \<^verbatim>\<open>cond ? x + noise(mag) : 0\<close>: a draw is made only when the condition holds. The sum is
  exact here; the code's addition rounds it to the nearest floating-point number, which can
  put a published value on the edge of its jitter (\<open>x + mag / 2\<close>) where the exact sum stays
  below it.
\<close>

definition snap :: "(nat \<Rightarrow> real) \<Rightarrow> nat \<Rightarrow> bool \<Rightarrow> real \<Rightarrow> real \<Rightarrow> real \<times> nat" where
  "snap rnd k cond x mag = (if cond then (x + noise rnd k mag, Suc k) else (0, k))"

text \<open>\<^verbatim>\<open>x + noise(mag)\<close>.\<close>

definition jitter :: "(nat \<Rightarrow> real) \<Rightarrow> nat \<Rightarrow> real \<Rightarrow> real \<Rightarrow> real \<times> nat" where
  "jitter rnd k x mag = (x + noise rnd k mag, Suc k)"

text \<open>Differential pressure over the RO stage.\<close>

definition dP_ro_of :: "physics_state \<Rightarrow> real" where
  "dP_ro_of ps =
     (if Q_feed ps > 1 then
        (let flow_component = Q_feed ps / RO_FEED_RATE;
             rupture_factor = (if membrane_health ps < 30 then 0.2 else 1.0)
         in (0.5 + flow_component * 1.5) * rupture_factor)
      else 0)"

text \<open>
  The returned object literal; its properties are evaluated top to bottom. \<open>now\<close> is the result
  of \<^verbatim>\<open>Date.now()\<close>.
\<close>

definition emit ::
  "physics_state \<Rightarrow> real \<Rightarrow> real \<Rightarrow> real \<Rightarrow> real \<Rightarrow> (nat \<Rightarrow> real) \<Rightarrow> SimulationState" where
  "emit ps Q_perm_actual rejection_rate pH_adjustment now rnd =
     (let TDS_feed_now = 1250 + sin (now / 10000) * 20;
          TDS_perm = TDS_feed_now * (1 - rejection_rate);
          pH_now = 7.0 + pH_adjustment;
          dP_ro = dP_ro_of ps;
          (qw, k) = snap rnd 0 (Q_wellfield ps > 1) (Q_wellfield ps) 2;
          (qf, k) = snap rnd k (Q_feed ps > 1) (Q_feed ps) 2;
          (qp, k) = snap rnd k (Q_perm_actual > 0.1) Q_perm_actual 1;
          (qb, k) = snap rnd k (Q_feed ps - Q_perm_actual > 0.1) (Q_feed ps - Q_perm_actual) 1;
          (qo, k) = snap rnd k (Q_out ps > 1) (Q_out ps) 1;
          (tf, k) = jitter rnd k TDS_feed_now 5;
          (tp, k) = jitter rnd k TDS_perm 2;
          (ph, k) = jitter rnd k pH_now 0.05;
          (cl, k) = snap rnd k (Cl_true ps > 0.05) (Cl_true ps) 0.01;
          (pw, k) = jitter rnd k (pressure_well ps) 0.1;
          (dp, k) = jitter rnd k dP_ro 0.02;
          (pf, k) = jitter rnd k (pressure_feed ps) 0.1;
          (pd, k) = jitter rnd k (pressure_dist ps) 0.1
      in \<lparr> Q_wellfield_pub = qw, Q_feed_pub = qf, Q_perm_pub = qp, Q_brine_pub = qb,
           Q_out_pub = qo,
           level_feed_tank_pub = level_feed_tank ps,
           level_clearwell_pub = level_clearwell ps,
           V_clearwell_pub = level_clearwell ps * TANK_AREA_CLEARWELL,
           TDS_feed_pub = tf, TDS_perm_pub = tp, pH_true_pub = ph, Cl_true_pub = cl,
           H2S_feed_pub = 2.5, H2S_out_pub = 0,
           pressure_well_pub = pw, dP_ro_true_pub = dp, pressure_feed_pub = pf,
           pressure_dist_pub = pd,
           membrane_health_pub = membrane_health ps,
           pump_well_health_pub = pump_well_health ps,
           pump_feed_health_pub = pump_feed_health ps,
           pump_dist_health_pub = pump_dist_health ps,
           pipe_well_health_pub = pipe_well_health ps,
           pipe_feed_health_pub = pipe_feed_health ps,
           pipe_dist_health_pub = pipe_dist_health ps \<rparr>)"

subsection \<open>The tick\<close>

text \<open>
  The body of \<^verbatim>\<open>simulatePhysics\<close>: the state after the call and the snapshot returned.
  The parameter \<^verbatim>\<open>dt_seconds\<close> defaults to 0.1 in the source; here it is always given.
\<close>

definition simulatePhysics ::
  "physics_state \<Rightarrow> SimulationControls \<Rightarrow> real \<Rightarrow> real \<Rightarrow> (nat \<Rightarrow> real)
     \<Rightarrow> physics_state \<times> SimulationState" where
  "simulatePhysics ps c dt now rnd =
     (let well_t = well_targets c;
          suction_head_ok = (level_feed_tank ps > 0.2);
          discharge_path_open = valve_201_open c;
          ps = pump_damage ps c suction_head_ok dt;
          pump_efficiency = pump_feed_health ps / 100.0;
          feed_t = feed_targets c suction_head_ok discharge_path_open pump_efficiency;
          dist_t = dist_targets ps c;
          ps = apply_ramps ps well_t feed_t dist_t;
          ps = pipe_damage ps dt;
          ps = chlorine ps c;
          ps = membrane_damage ps dt;
          pH_adjustment = (if naoh_pump_on c then NaOH_dose c * 0.15 else 0);
          rejection_rate = 0.98 * (membrane_health ps / 100.0);
          ps = feed_tank_balance ps dt;
          Q_perm_actual = Q_feed ps * ro_recovery;
          ps = clearwell_balance ps Q_perm_actual dt
      in (ps, emit ps Q_perm_actual rejection_rate pH_adjustment now rnd))"

text \<open>
  The simulation loop of \<^verbatim>\<open>PlantApi.connect\<close> calls \<^verbatim>\<open>simulatePhysics\<close> once per timer period
  with the controls current at that moment. A run is the list of the calls' arguments:
  controls, \<open>dt\<close>, clock reading and random draws.
\<close>

type_synonym tick_input = "SimulationControls \<times> real \<times> real \<times> (nat \<Rightarrow> real)"

fun run_ticks :: "physics_state \<Rightarrow> tick_input list \<Rightarrow> physics_state" where
  "run_ticks ps [] = ps"
| "run_ticks ps ((c, dt, now, rnd) # ts) = run_ticks (fst (simulatePhysics ps c dt now rnd)) ts"

section \<open>Runs, events and the notions used in the statements\<close>

text \<open>
  The physics state is assigned by two functions only: \<^verbatim>\<open>simulatePhysics\<close> and \<^verbatim>\<open>resetDamage\<close>.
  An event is one call of either.
\<close>

datatype event = Tick tick_input | ResetDamage

fun apply_event :: "physics_state \<Rightarrow> event \<Rightarrow> physics_state" where
  "apply_event ps (Tick (c, dt, now, rnd)) = fst (simulatePhysics ps c dt now rnd)"
| "apply_event ps ResetDamage = resetDamage ps"

fun run_events :: "physics_state \<Rightarrow> event list \<Rightarrow> physics_state" where
  "run_events ps [] = ps"
| "run_events ps (e # es) = run_events (apply_event ps e) es"

definition tick_controls :: "tick_input \<Rightarrow> SimulationControls" where
  "tick_controls t = fst t"

definition tick_dt :: "tick_input \<Rightarrow> real" where
  "tick_dt t = fst (snd t)"

text \<open>The time step of an event is not negative (a reset has none).\<close>

fun event_dt_ok :: "event \<Rightarrow> bool" where
  "event_dt_ok (Tick t) = (0 \<le> tick_dt t)"
| "event_dt_ok ResetDamage = True"

text \<open>The demand setpoint of an event's controls is not negative.\<close>

fun event_sp_ok :: "event \<Rightarrow> bool" where
  "event_sp_ok (Tick t) = (0 \<le> Q_out_sp (tick_controls t))"
| "event_sp_ok ResetDamage = True"

text \<open>Every health variable lies in \<open>[0, 100]\<close>.\<close>

definition health_ok :: "physics_state \<Rightarrow> bool" where
  "health_ok ps =
     (0 \<le> membrane_health ps \<and> membrane_health ps \<le> 100 \<and>
      0 \<le> pump_well_health ps \<and> pump_well_health ps \<le> 100 \<and>
      0 \<le> pump_feed_health ps \<and> pump_feed_health ps \<le> 100 \<and>
      0 \<le> pump_dist_health ps \<and> pump_dist_health ps \<le> 100 \<and>
      0 \<le> pipe_well_health ps \<and> pipe_well_health ps \<le> 100 \<and>
      0 \<le> pipe_feed_health ps \<and> pipe_feed_health ps \<le> 100 \<and>
      0 \<le> pipe_dist_health ps \<and> pipe_dist_health ps \<le> 100)"

text \<open>No health variable of \<open>a\<close> exceeds the same variable of \<open>b\<close>.\<close>

definition health_le :: "physics_state \<Rightarrow> physics_state \<Rightarrow> bool" where
  "health_le a b =
     (membrane_health a \<le> membrane_health b \<and>
      pump_well_health a \<le> pump_well_health b \<and>
      pump_feed_health a \<le> pump_feed_health b \<and>
      pump_dist_health a \<le> pump_dist_health b \<and>
      pipe_well_health a \<le> pipe_well_health b \<and>
      pipe_feed_health a \<le> pipe_feed_health b \<and>
      pipe_dist_health a \<le> pipe_dist_health b)"

text \<open>The integrated flows and pressures are not negative.\<close>

definition flows_pressures_ok :: "physics_state \<Rightarrow> bool" where
  "flows_pressures_ok ps =
     (0 \<le> Q_wellfield ps \<and> 0 \<le> Q_feed ps \<and> 0 \<le> Q_out ps \<and>
      0 \<le> pressure_well ps \<and> 0 \<le> pressure_feed ps \<and> 0 \<le> pressure_dist ps)"

text \<open>\<^verbatim>\<open>Math.random()\<close> returns a number in \<open>[0, 1)\<close>.\<close>

definition draws_ok :: "(nat \<Rightarrow> real) \<Rightarrow> bool" where
  "draws_ok rnd = (\<forall>k. 0 \<le> rnd k \<and> rnd k < 1)"

text \<open>Two concrete streams of draws: a constant one, and one that is low first and high after.\<close>

definition draws_const :: "real \<Rightarrow> nat \<Rightarrow> real" where
  "draws_const x k = x"

definition draws_skewed :: "nat \<Rightarrow> real" where
  "draws_skewed k = (if k = 0 then 0 else 0.9)"

text \<open>A health debit in the words of the specification: \<open>rate \<cdot> dt\<close>, floored at 0.\<close>

definition debit :: "real \<Rightarrow> real \<Rightarrow> real \<Rightarrow> real" where
  "debit h rate dt = max 0 (h - rate * dt)"

text \<open>
  The four-case rule of the specification for the RO feed targets, with
  \<open>suction_ok = level_feed_tank > 0.2\<close> and \<open>\<eta> = pump_feed_health / 100\<close>.
\<close>

definition spec_feed_targets :: "physics_state \<Rightarrow> SimulationControls \<Rightarrow> real \<times> real" where
  "spec_feed_targets ps c =
     (let suction_ok = (level_feed_tank ps > 0.2);
          \<eta> = pump_feed_health ps / 100
      in if ro_feed_pump_on c \<and> suction_ok \<and> valve_201_open c \<and> valve_202_open c \<and> valve_203_open c
         then (100 * \<eta>, 12.0)
         else if ro_feed_pump_on c \<and> suction_ok \<and> valve_201_open c
                 \<and> \<not> (valve_202_open c \<and> valve_203_open c)
         then (0, 30.0)
         else if ro_feed_pump_on c \<and> suction_ok \<and> \<not> valve_201_open c
         then (0, 33.0)
         else (0, 0))"

text \<open>The three-case rule of the specification for the chlorine target at feed flow \<open>q\<close>.\<close>

definition spec_current_Cl :: "SimulationControls \<Rightarrow> real \<Rightarrow> real" where
  "spec_current_Cl c q =
     (if cl_pump_on c \<and> q > 5 then 0.9 * Cl_dose c
      else if cl_pump_on c \<and> q \<le> 5 \<and> Cl_dose c > 0 then 50.0
      else 0)"

text \<open>
  Scenario S1 (P-201 deadhead): coils 1 and 4 set, coils 5 and 6 cleared, over the controls of
  a cold start. Coil 1 is \<open>ro_feed_pump_on\<close>, coils 4, 5, 6 are valves 201, 202, 203.
\<close>

definition S1_controls :: SimulationControls where
  "S1_controls = currentControls_init\<lparr>
     ro_feed_pump_on := True, valve_201_open := True,
     valve_202_open := False, valve_203_open := False\<rparr>"

text \<open>Normal operation of the RO feed: the pump running with every valve open.\<close>

definition feed_running_controls :: SimulationControls where
  "feed_running_controls = currentControls_init\<lparr>ro_feed_pump_on := True\<rparr>"

text \<open>Chlorine dosing into a plant at rest: the cold-start controls with the chlorine pump on.\<close>

definition dosing_controls :: SimulationControls where
  "dosing_controls = currentControls_init\<lparr>cl_pump_on := True\<rparr>"

text \<open>Ticks of the simulation loop (\<open>dt = 0.1\<close>) at a fixed clock reading and stream of draws.\<close>

definition S1_tick :: tick_input where
  "S1_tick = (S1_controls, 0.1, 0, draws_const 0)"

definition dosing_tick :: tick_input where
  "dosing_tick = (dosing_controls, 0.1, 0, draws_const 0)"

text \<open>
  A run in which the chlorine pump is held on with a positive dose while the feed flow read by
  the chlorine block stays below 5.
\<close>

fun stagnant_dosing :: "physics_state \<Rightarrow> tick_input list \<Rightarrow> bool" where
  "stagnant_dosing ps [] = True"
| "stagnant_dosing ps ((c, dt, now, rnd) # ts) =
     (cl_pump_on c \<and> Cl_dose c > 0 \<and> Q_feed (fst (simulatePhysics ps c dt now rnd)) < 5
      \<and> stagnant_dosing (fst (simulatePhysics ps c dt now rnd)) ts)"


section \<open>Auxiliary facts about the blocks of the tick\<close>

text \<open>A guarded assignment to one field is an unguarded assignment of a guarded value.\<close>

lemma if_upd:
  "(if b then ps\<lparr>pump_feed_health := x\<rparr> else ps) = ps\<lparr>pump_feed_health := (if b then x else pump_feed_health ps)\<rparr>"
  "(if b then ps\<lparr>pump_well_health := x\<rparr> else ps) = ps\<lparr>pump_well_health := (if b then x else pump_well_health ps)\<rparr>"
  "(if b then ps\<lparr>pump_dist_health := x\<rparr> else ps) = ps\<lparr>pump_dist_health := (if b then x else pump_dist_health ps)\<rparr>"
  "(if b then ps\<lparr>pipe_well_health := x\<rparr> else ps) = ps\<lparr>pipe_well_health := (if b then x else pipe_well_health ps)\<rparr>"
  "(if b then ps\<lparr>pipe_feed_health := x\<rparr> else ps) = ps\<lparr>pipe_feed_health := (if b then x else pipe_feed_health ps)\<rparr>"
  "(if b then ps\<lparr>pipe_dist_health := x\<rparr> else ps) = ps\<lparr>pipe_dist_health := (if b then x else pipe_dist_health ps)\<rparr>"
  "(if b then ps\<lparr>membrane_health := x\<rparr> else ps) = ps\<lparr>membrane_health := (if b then x else membrane_health ps)\<rparr>"
  "(if b then ps\<lparr>level_feed_tank := x\<rparr> else ps) = ps\<lparr>level_feed_tank := (if b then x else level_feed_tank ps)\<rparr>"
  "(if b then ps\<lparr>level_clearwell := x\<rparr> else ps) = ps\<lparr>level_clearwell := (if b then x else level_clearwell ps)\<rparr>"
  by simp_all

lemma pump_damage_upd:
  "pump_damage ps c ok dt = ps\<lparr>
     pump_feed_health := (if ro_feed_pump_on c \<and> \<not> ok then max 0 (pump_feed_health ps - 0.5 * dt) else pump_feed_health ps),
     pump_well_health := (if wellfield_on c \<and> \<not> valve_101_open c then max 0 (pump_well_health ps - 0.3 * dt) else pump_well_health ps),
     pump_dist_health :=
       (if dist_pump_on c then
         (let h = (if level_clearwell ps < 0.2 then max 0 (pump_dist_health ps - 0.5 * dt) else pump_dist_health ps)
          in if \<not> valve_401_open c then max 0 (h - 0.3 * dt) else h)
        else pump_dist_health ps)\<rparr>"
  by (simp add: pump_damage_def Let_def if_upd split del: if_split cong: if_cong)

lemma apply_ramps_upd:
  "apply_ramps ps w f d = ps\<lparr>
     Q_wellfield := Q_wellfield ps + (fst w - Q_wellfield ps) * 0.1,
     Q_feed := Q_feed ps + (fst f - Q_feed ps) * 0.1,
     Q_out := Q_out ps + (fst d - Q_out ps) * 0.1,
     pressure_well := pressure_well ps + (snd w - pressure_well ps) * 0.5,
     pressure_feed := pressure_feed ps + (snd f - pressure_feed ps) * 0.5,
     pressure_dist := pressure_dist ps + (snd d - pressure_dist ps) * 0.5\<rparr>"
  by (simp add: apply_ramps_def Let_def RAMP_RATE_def)

lemma pipe_damage_upd:
  "pipe_damage ps dt = ps\<lparr>
     pipe_well_health := (if pressure_well ps > 10 then max 0 (pipe_well_health ps - 0.2 * dt) else pipe_well_health ps),
     pipe_feed_health := (if pressure_feed ps > 20 then max 0 (pipe_feed_health ps - 0.5 * dt) else pipe_feed_health ps),
     pipe_dist_health := (if pressure_dist ps > 12 then max 0 (pipe_dist_health ps - 0.3 * dt) else pipe_dist_health ps)\<rparr>"
  by (simp add: pipe_damage_def Let_def if_upd split del: if_split cong: if_cong)

lemma membrane_damage_upd:
  "membrane_damage ps dt = ps\<lparr>
     membrane_health :=
       (let h = (if Cl_true ps > 0.1 \<and> Q_feed ps > 0 then max 0 (membrane_health ps - 0.2 * dt) else membrane_health ps)
        in if pressure_feed ps > 20 then max 0 (h - 1.0 * dt) else h)\<rparr>"
  by (simp add: membrane_damage_def Let_def MEMBRANE_CHLORINE_LIMIT_def if_upd split del: if_split cong: if_cong)

lemma feed_tank_balance_upd:
  "feed_tank_balance ps dt = ps\<lparr>
     level_feed_tank := max 0 (min 5 (level_feed_tank ps + (Q_wellfield ps - Q_feed ps) * (dt / 3600) / 10))\<rparr>"
  by (simp add: feed_tank_balance_def Let_def TANK_AREA_FEED_def max_def min_def)

lemma clearwell_balance_upd:
  "clearwell_balance ps q dt = ps\<lparr>
     level_clearwell := max 0 (min 6 (level_clearwell ps + (q - Q_out ps) * (dt / 3600) / 40))\<rparr>"
  by (simp add: clearwell_balance_def Let_def TANK_AREA_CLEARWELL_def max_def min_def)

lemma pump_damage_frame:
  "Q_wellfield (pump_damage ps c ok dt) = Q_wellfield ps"
  "Q_feed (pump_damage ps c ok dt) = Q_feed ps"
  "Q_out (pump_damage ps c ok dt) = Q_out ps"
  "level_feed_tank (pump_damage ps c ok dt) = level_feed_tank ps"
  "level_clearwell (pump_damage ps c ok dt) = level_clearwell ps"
  "pressure_well (pump_damage ps c ok dt) = pressure_well ps"
  "pressure_feed (pump_damage ps c ok dt) = pressure_feed ps"
  "pressure_dist (pump_damage ps c ok dt) = pressure_dist ps"
  "TDS_feed (pump_damage ps c ok dt) = TDS_feed ps"
  "pH_true (pump_damage ps c ok dt) = pH_true ps"
  "Cl_true (pump_damage ps c ok dt) = Cl_true ps"
  "H2S_feed (pump_damage ps c ok dt) = H2S_feed ps"
  "membrane_health (pump_damage ps c ok dt) = membrane_health ps"
  "pipe_well_health (pump_damage ps c ok dt) = pipe_well_health ps"
  "pipe_feed_health (pump_damage ps c ok dt) = pipe_feed_health ps"
  "pipe_dist_health (pump_damage ps c ok dt) = pipe_dist_health ps"
  by (simp_all add: pump_damage_upd)

lemma apply_ramps_frame:
  "level_feed_tank (apply_ramps ps w f d) = level_feed_tank ps"
  "level_clearwell (apply_ramps ps w f d) = level_clearwell ps"
  "TDS_feed (apply_ramps ps w f d) = TDS_feed ps"
  "pH_true (apply_ramps ps w f d) = pH_true ps"
  "Cl_true (apply_ramps ps w f d) = Cl_true ps"
  "H2S_feed (apply_ramps ps w f d) = H2S_feed ps"
  "membrane_health (apply_ramps ps w f d) = membrane_health ps"
  "pump_well_health (apply_ramps ps w f d) = pump_well_health ps"
  "pump_feed_health (apply_ramps ps w f d) = pump_feed_health ps"
  "pump_dist_health (apply_ramps ps w f d) = pump_dist_health ps"
  "pipe_well_health (apply_ramps ps w f d) = pipe_well_health ps"
  "pipe_feed_health (apply_ramps ps w f d) = pipe_feed_health ps"
  "pipe_dist_health (apply_ramps ps w f d) = pipe_dist_health ps"
  by (simp_all add: apply_ramps_upd)

lemma pipe_damage_frame:
  "Q_wellfield (pipe_damage ps dt) = Q_wellfield ps"
  "Q_feed (pipe_damage ps dt) = Q_feed ps"
  "Q_out (pipe_damage ps dt) = Q_out ps"
  "level_feed_tank (pipe_damage ps dt) = level_feed_tank ps"
  "level_clearwell (pipe_damage ps dt) = level_clearwell ps"
  "pressure_well (pipe_damage ps dt) = pressure_well ps"
  "pressure_feed (pipe_damage ps dt) = pressure_feed ps"
  "pressure_dist (pipe_damage ps dt) = pressure_dist ps"
  "TDS_feed (pipe_damage ps dt) = TDS_feed ps"
  "pH_true (pipe_damage ps dt) = pH_true ps"
  "Cl_true (pipe_damage ps dt) = Cl_true ps"
  "H2S_feed (pipe_damage ps dt) = H2S_feed ps"
  "membrane_health (pipe_damage ps dt) = membrane_health ps"
  "pump_well_health (pipe_damage ps dt) = pump_well_health ps"
  "pump_feed_health (pipe_damage ps dt) = pump_feed_health ps"
  "pump_dist_health (pipe_damage ps dt) = pump_dist_health ps"
  by (simp_all add: pipe_damage_upd)

lemma chlorine_frame:
  "Q_wellfield (chlorine ps c) = Q_wellfield ps"
  "Q_feed (chlorine ps c) = Q_feed ps"
  "Q_out (chlorine ps c) = Q_out ps"
  "level_feed_tank (chlorine ps c) = level_feed_tank ps"
  "level_clearwell (chlorine ps c) = level_clearwell ps"
  "pressure_well (chlorine ps c) = pressure_well ps"
  "pressure_feed (chlorine ps c) = pressure_feed ps"
  "pressure_dist (chlorine ps c) = pressure_dist ps"
  "TDS_feed (chlorine ps c) = TDS_feed ps"
  "pH_true (chlorine ps c) = pH_true ps"
  "H2S_feed (chlorine ps c) = H2S_feed ps"
  "membrane_health (chlorine ps c) = membrane_health ps"
  "pump_well_health (chlorine ps c) = pump_well_health ps"
  "pump_feed_health (chlorine ps c) = pump_feed_health ps"
  "pump_dist_health (chlorine ps c) = pump_dist_health ps"
  "pipe_well_health (chlorine ps c) = pipe_well_health ps"
  "pipe_feed_health (chlorine ps c) = pipe_feed_health ps"
  "pipe_dist_health (chlorine ps c) = pipe_dist_health ps"
  by (simp_all add: chlorine_def Let_def)

lemma membrane_damage_frame:
  "Q_wellfield (membrane_damage ps dt) = Q_wellfield ps"
  "Q_feed (membrane_damage ps dt) = Q_feed ps"
  "Q_out (membrane_damage ps dt) = Q_out ps"
  "level_feed_tank (membrane_damage ps dt) = level_feed_tank ps"
  "level_clearwell (membrane_damage ps dt) = level_clearwell ps"
  "pressure_well (membrane_damage ps dt) = pressure_well ps"
  "pressure_feed (membrane_damage ps dt) = pressure_feed ps"
  "pressure_dist (membrane_damage ps dt) = pressure_dist ps"
  "TDS_feed (membrane_damage ps dt) = TDS_feed ps"
  "pH_true (membrane_damage ps dt) = pH_true ps"
  "Cl_true (membrane_damage ps dt) = Cl_true ps"
  "H2S_feed (membrane_damage ps dt) = H2S_feed ps"
  "pump_well_health (membrane_damage ps dt) = pump_well_health ps"
  "pump_feed_health (membrane_damage ps dt) = pump_feed_health ps"
  "pump_dist_health (membrane_damage ps dt) = pump_dist_health ps"
  "pipe_well_health (membrane_damage ps dt) = pipe_well_health ps"
  "pipe_feed_health (membrane_damage ps dt) = pipe_feed_health ps"
  "pipe_dist_health (membrane_damage ps dt) = pipe_dist_health ps"
  by (simp_all add: membrane_damage_upd)

lemma feed_tank_balance_frame:
  "Q_wellfield (feed_tank_balance ps dt) = Q_wellfield ps"
  "Q_feed (feed_tank_balance ps dt) = Q_feed ps"
  "Q_out (feed_tank_balance ps dt) = Q_out ps"
  "level_clearwell (feed_tank_balance ps dt) = level_clearwell ps"
  "pressure_well (feed_tank_balance ps dt) = pressure_well ps"
  "pressure_feed (feed_tank_balance ps dt) = pressure_feed ps"
  "pressure_dist (feed_tank_balance ps dt) = pressure_dist ps"
  "TDS_feed (feed_tank_balance ps dt) = TDS_feed ps"
  "pH_true (feed_tank_balance ps dt) = pH_true ps"
  "Cl_true (feed_tank_balance ps dt) = Cl_true ps"
  "H2S_feed (feed_tank_balance ps dt) = H2S_feed ps"
  "membrane_health (feed_tank_balance ps dt) = membrane_health ps"
  "pump_well_health (feed_tank_balance ps dt) = pump_well_health ps"
  "pump_feed_health (feed_tank_balance ps dt) = pump_feed_health ps"
  "pump_dist_health (feed_tank_balance ps dt) = pump_dist_health ps"
  "pipe_well_health (feed_tank_balance ps dt) = pipe_well_health ps"
  "pipe_feed_health (feed_tank_balance ps dt) = pipe_feed_health ps"
  "pipe_dist_health (feed_tank_balance ps dt) = pipe_dist_health ps"
  by (simp_all add: feed_tank_balance_upd)

lemma clearwell_balance_frame:
  "Q_wellfield (clearwell_balance ps q dt) = Q_wellfield ps"
  "Q_feed (clearwell_balance ps q dt) = Q_feed ps"
  "Q_out (clearwell_balance ps q dt) = Q_out ps"
  "level_feed_tank (clearwell_balance ps q dt) = level_feed_tank ps"
  "pressure_well (clearwell_balance ps q dt) = pressure_well ps"
  "pressure_feed (clearwell_balance ps q dt) = pressure_feed ps"
  "pressure_dist (clearwell_balance ps q dt) = pressure_dist ps"
  "TDS_feed (clearwell_balance ps q dt) = TDS_feed ps"
  "pH_true (clearwell_balance ps q dt) = pH_true ps"
  "Cl_true (clearwell_balance ps q dt) = Cl_true ps"
  "H2S_feed (clearwell_balance ps q dt) = H2S_feed ps"
  "membrane_health (clearwell_balance ps q dt) = membrane_health ps"
  "pump_well_health (clearwell_balance ps q dt) = pump_well_health ps"
  "pump_feed_health (clearwell_balance ps q dt) = pump_feed_health ps"
  "pump_dist_health (clearwell_balance ps q dt) = pump_dist_health ps"
  "pipe_well_health (clearwell_balance ps q dt) = pipe_well_health ps"
  "pipe_feed_health (clearwell_balance ps q dt) = pipe_feed_health ps"
  "pipe_dist_health (clearwell_balance ps q dt) = pipe_dist_health ps"
  by (simp_all add: clearwell_balance_upd)


lemma pump_damage_val:
  "pump_feed_health (pump_damage ps c ok dt) =
     (if ro_feed_pump_on c \<and> \<not> ok then max 0 (pump_feed_health ps - 0.5 * dt) else pump_feed_health ps)"
  "pump_well_health (pump_damage ps c ok dt) =
     (if wellfield_on c \<and> \<not> valve_101_open c then max 0 (pump_well_health ps - 0.3 * dt)
      else pump_well_health ps)"
  "pump_dist_health (pump_damage ps c ok dt) =
     (if dist_pump_on c then
        (let h = (if level_clearwell ps < 0.2 then max 0 (pump_dist_health ps - 0.5 * dt)
                  else pump_dist_health ps)
         in if \<not> valve_401_open c then max 0 (h - 0.3 * dt) else h)
      else pump_dist_health ps)"
  by (simp_all add: pump_damage_upd)

lemma apply_ramps_val:
  "Q_wellfield (apply_ramps ps w f d) = Q_wellfield ps + (fst w - Q_wellfield ps) * 0.1"
  "Q_feed (apply_ramps ps w f d) = Q_feed ps + (fst f - Q_feed ps) * 0.1"
  "Q_out (apply_ramps ps w f d) = Q_out ps + (fst d - Q_out ps) * 0.1"
  "pressure_well (apply_ramps ps w f d) = pressure_well ps + (snd w - pressure_well ps) * 0.5"
  "pressure_feed (apply_ramps ps w f d) = pressure_feed ps + (snd f - pressure_feed ps) * 0.5"
  "pressure_dist (apply_ramps ps w f d) = pressure_dist ps + (snd d - pressure_dist ps) * 0.5"
  by (simp_all add: apply_ramps_upd)

lemma pipe_damage_val:
  "pipe_well_health (pipe_damage ps dt) =
     (if pressure_well ps > 10 then max 0 (pipe_well_health ps - 0.2 * dt) else pipe_well_health ps)"
  "pipe_feed_health (pipe_damage ps dt) =
     (if pressure_feed ps > 20 then max 0 (pipe_feed_health ps - 0.5 * dt) else pipe_feed_health ps)"
  "pipe_dist_health (pipe_damage ps dt) =
     (if pressure_dist ps > 12 then max 0 (pipe_dist_health ps - 0.3 * dt) else pipe_dist_health ps)"
  by (simp_all add: pipe_damage_upd)

lemma chlorine_val:
  "Cl_true (chlorine ps c) =
     Cl_true ps +
     ((if cl_pump_on c then
         (if Q_feed ps > 5 then max 0 (Cl_dose c * 0.9) else if Cl_dose c > 0 then 50.0 else 0)
       else 0) - Cl_true ps) * 0.1"
  by (simp add: chlorine_def Let_def)

lemma membrane_damage_val:
  "membrane_health (membrane_damage ps dt) =
     (let h = (if Cl_true ps > 0.1 \<and> Q_feed ps > 0 then max 0 (membrane_health ps - 0.2 * dt)
               else membrane_health ps)
      in if pressure_feed ps > 20 then max 0 (h - 1.0 * dt) else h)"
  by (simp add: membrane_damage_upd)

lemma feed_tank_balance_val:
  "level_feed_tank (feed_tank_balance ps dt) =
     max 0 (min 5 (level_feed_tank ps + (Q_wellfield ps - Q_feed ps) * (dt / 3600) / 10))"
  by (simp add: feed_tank_balance_upd)

lemma clearwell_balance_val:
  "level_clearwell (clearwell_balance ps q dt) =
     max 0 (min 6 (level_clearwell ps + (q - Q_out ps) * (dt / 3600) / 40))"
  by (simp add: clearwell_balance_upd)

lemmas stage_frames = pump_damage_frame apply_ramps_frame pipe_damage_frame chlorine_frame
  membrane_damage_frame feed_tank_balance_frame clearwell_balance_frame

lemmas stage_vals = pump_damage_val apply_ramps_val pipe_damage_val chlorine_val
  membrane_damage_val feed_tank_balance_val clearwell_balance_val

lemma fst_simulatePhysics:
  "fst (simulatePhysics ps c dt now rnd) =
     (let ok = (level_feed_tank ps > 0.2);
          ps1 = pump_damage ps c ok dt;
          ps2 = apply_ramps ps1 (well_targets c)
                  (feed_targets c ok (valve_201_open c) (pump_feed_health ps1 / 100.0))
                  (dist_targets ps1 c);
          ps3 = membrane_damage (chlorine (pipe_damage ps2 dt) c) dt;
          ps4 = feed_tank_balance ps3 dt
      in clearwell_balance ps4 (Q_feed ps4 * ro_recovery) dt)"
  by (simp only: simulatePhysics_def Let_def fst_conv)


section \<open>The state after one tick, field by field\<close>

text \<open>
  The pump efficiency is read after the cavitation debit. The debit falls only without suction
  head, where the targets ignore the efficiency, so the health before the tick gives the same
  targets.
\<close>

lemma feed_targets_efficiency:
  "feed_targets c ok v (pump_feed_health (pump_damage ps c ok dt) / 100) =
   feed_targets c ok v (pump_feed_health ps / 100)"
  by (cases ok) (simp_all add: feed_targets_def pump_damage_val)

lemma tick_flows:
  "Q_wellfield (fst (simulatePhysics ps c dt now rnd)) =
     Q_wellfield ps + (fst (well_targets c) - Q_wellfield ps) * 0.1"
  "Q_feed (fst (simulatePhysics ps c dt now rnd)) =
     Q_feed ps +
     (fst (feed_targets c (level_feed_tank ps > 0.2) (valve_201_open c) (pump_feed_health ps / 100))
      - Q_feed ps) * 0.1"
  "Q_out (fst (simulatePhysics ps c dt now rnd)) =
     Q_out ps + (fst (dist_targets ps c) - Q_out ps) * 0.1"
  by (simp_all add: fst_simulatePhysics Let_def stage_frames apply_ramps_val
      feed_targets_efficiency dist_targets_def split del: if_split cong: if_cong)

lemma tick_pressures:
  "pressure_well (fst (simulatePhysics ps c dt now rnd)) =
     pressure_well ps + (snd (well_targets c) - pressure_well ps) * 0.5"
  "pressure_feed (fst (simulatePhysics ps c dt now rnd)) =
     pressure_feed ps +
     (snd (feed_targets c (level_feed_tank ps > 0.2) (valve_201_open c) (pump_feed_health ps / 100))
      - pressure_feed ps) * 0.5"
  "pressure_dist (fst (simulatePhysics ps c dt now rnd)) =
     pressure_dist ps + (snd (dist_targets ps c) - pressure_dist ps) * 0.5"
  by (simp_all add: fst_simulatePhysics Let_def stage_frames apply_ramps_val
      feed_targets_efficiency dist_targets_def split del: if_split cong: if_cong)

lemma tick_pump_health:
  "pump_feed_health (fst (simulatePhysics ps c dt now rnd)) =
     (if ro_feed_pump_on c \<and> \<not> level_feed_tank ps > 0.2
      then max 0 (pump_feed_health ps - 0.5 * dt) else pump_feed_health ps)"
  "pump_well_health (fst (simulatePhysics ps c dt now rnd)) =
     (if wellfield_on c \<and> \<not> valve_101_open c
      then max 0 (pump_well_health ps - 0.3 * dt) else pump_well_health ps)"
  "pump_dist_health (fst (simulatePhysics ps c dt now rnd)) =
     (if dist_pump_on c then
        (let h = (if level_clearwell ps < 0.2 then max 0 (pump_dist_health ps - 0.5 * dt)
                  else pump_dist_health ps)
         in if \<not> valve_401_open c then max 0 (h - 0.3 * dt) else h)
      else pump_dist_health ps)"
  by (simp_all add: fst_simulatePhysics Let_def stage_frames pump_damage_val
      split del: if_split cong: if_cong)

lemma tick_pipe_health:
  "pipe_well_health (fst (simulatePhysics ps c dt now rnd)) =
     (if pressure_well (fst (simulatePhysics ps c dt now rnd)) > 10
      then max 0 (pipe_well_health ps - 0.2 * dt) else pipe_well_health ps)"
  "pipe_feed_health (fst (simulatePhysics ps c dt now rnd)) =
     (if pressure_feed (fst (simulatePhysics ps c dt now rnd)) > 20
      then max 0 (pipe_feed_health ps - 0.5 * dt) else pipe_feed_health ps)"
  "pipe_dist_health (fst (simulatePhysics ps c dt now rnd)) =
     (if pressure_dist (fst (simulatePhysics ps c dt now rnd)) > 12
      then max 0 (pipe_dist_health ps - 0.3 * dt) else pipe_dist_health ps)"
  by (simp_all add: fst_simulatePhysics Let_def stage_frames stage_vals
      split del: if_split cong: if_cong)

lemma tick_Cl_true:
  "Cl_true (fst (simulatePhysics ps c dt now rnd)) =
     Cl_true ps +
     ((if cl_pump_on c then
         (if Q_feed (fst (simulatePhysics ps c dt now rnd)) > 5 then max 0 (Cl_dose c * 0.9)
          else if Cl_dose c > 0 then 50.0 else 0)
       else 0) - Cl_true ps) * 0.1"
  by (simp add: fst_simulatePhysics Let_def stage_frames stage_vals
      split del: if_split cong: if_cong)

lemma tick_membrane_health:
  "membrane_health (fst (simulatePhysics ps c dt now rnd)) =
     (let h = (if Cl_true (fst (simulatePhysics ps c dt now rnd)) > 0.1
                  \<and> Q_feed (fst (simulatePhysics ps c dt now rnd)) > 0
               then max 0 (membrane_health ps - 0.2 * dt) else membrane_health ps)
      in if pressure_feed (fst (simulatePhysics ps c dt now rnd)) > 20
         then max 0 (h - 1.0 * dt) else h)"
  by (simp add: fst_simulatePhysics Let_def stage_frames stage_vals
      split del: if_split cong: if_cong)

lemma tick_levels:
  "level_feed_tank (fst (simulatePhysics ps c dt now rnd)) =
     max 0 (min 5 (level_feed_tank ps +
       (Q_wellfield (fst (simulatePhysics ps c dt now rnd))
        - Q_feed (fst (simulatePhysics ps c dt now rnd))) * (dt / 3600) / 10))"
  "level_clearwell (fst (simulatePhysics ps c dt now rnd)) =
     max 0 (min 6 (level_clearwell ps +
       (Q_feed (fst (simulatePhysics ps c dt now rnd)) * 0.75
        - Q_out (fst (simulatePhysics ps c dt now rnd))) * (dt / 3600) / 40))"
  by (simp_all add: fst_simulatePhysics Let_def stage_frames stage_vals ro_recovery_def
      split del: if_split cong: if_cong)

lemma tick_constants:
  "TDS_feed (fst (simulatePhysics ps c dt now rnd)) = TDS_feed ps"
  "pH_true (fst (simulatePhysics ps c dt now rnd)) = pH_true ps"
  "H2S_feed (fst (simulatePhysics ps c dt now rnd)) = H2S_feed ps"
  by (simp_all add: fst_simulatePhysics Let_def stage_frames)

section \<open>The snapshot returned by one tick\<close>

lemma snd_simulatePhysics:
  "snd (simulatePhysics ps c dt now rnd) =
     emit (fst (simulatePhysics ps c dt now rnd))
       (Q_feed (fst (simulatePhysics ps c dt now rnd)) * ro_recovery)
       (0.98 * (membrane_health (fst (simulatePhysics ps c dt now rnd)) / 100))
       (if naoh_pump_on c then NaOH_dose c * 0.15 else 0) now rnd"
  by (simp add: simulatePhysics_def Let_def stage_frames split del: if_split cong: if_cong)

text \<open>Levels and health are published as they are.\<close>

lemma emit_plain:
  "level_feed_tank_pub (emit ps q r a now rnd) = level_feed_tank ps"
  "level_clearwell_pub (emit ps q r a now rnd) = level_clearwell ps"
  "membrane_health_pub (emit ps q r a now rnd) = membrane_health ps"
  "pump_well_health_pub (emit ps q r a now rnd) = pump_well_health ps"
  "pump_feed_health_pub (emit ps q r a now rnd) = pump_feed_health ps"
  "pump_dist_health_pub (emit ps q r a now rnd) = pump_dist_health ps"
  "pipe_well_health_pub (emit ps q r a now rnd) = pipe_well_health ps"
  "pipe_feed_health_pub (emit ps q r a now rnd) = pipe_feed_health ps"
  "pipe_dist_health_pub (emit ps q r a now rnd) = pipe_dist_health ps"
  by (simp_all add: emit_def Let_def split_def)

text \<open>
  A jittered value is published with some draw of the stream; which one depends on how many
  draws the properties above it made.
\<close>

lemma emit_flows:
  "\<exists>k. Q_wellfield_pub (emit ps q r a now rnd) = fst (snap rnd k (Q_wellfield ps > 1) (Q_wellfield ps) 2)"
  "\<exists>k. Q_feed_pub (emit ps q r a now rnd) = fst (snap rnd k (Q_feed ps > 1) (Q_feed ps) 2)"
  "\<exists>k. Q_perm_pub (emit ps q r a now rnd) = fst (snap rnd k (q > 0.1) q 1)"
  "\<exists>k. Q_brine_pub (emit ps q r a now rnd) = fst (snap rnd k (Q_feed ps - q > 0.1) (Q_feed ps - q) 1)"
  "\<exists>k. Q_out_pub (emit ps q r a now rnd) = fst (snap rnd k (Q_out ps > 1) (Q_out ps) 1)"
  unfolding emit_def Let_def split_def by (simp_all only: SimulationState.simps) blast+

lemma emit_pressures:
  "\<exists>k. pressure_well_pub (emit ps q r a now rnd) = fst (jitter rnd k (pressure_well ps) 0.1)"
  "\<exists>k. dP_ro_true_pub (emit ps q r a now rnd) = fst (jitter rnd k (dP_ro_of ps) 0.02)"
  "\<exists>k. pressure_feed_pub (emit ps q r a now rnd) = fst (jitter rnd k (pressure_feed ps) 0.1)"
  "\<exists>k. pressure_dist_pub (emit ps q r a now rnd) = fst (jitter rnd k (pressure_dist ps) 0.1)"
  unfolding emit_def Let_def split_def by (simp_all only: SimulationState.simps) blast+

text \<open>The size of the jitter.\<close>

lemma noise_bounds:
  assumes "draws_ok rnd" and "0 \<le> mag"
  shows "- (mag / 2) \<le> noise rnd k mag" and "noise rnd k mag \<le> mag / 2"
proof -
  from assms(1) have r: "0 \<le> rnd k" "rnd k < 1"
    by (simp_all add: draws_ok_def)
  have eq: "noise rnd k mag = rnd k * mag - mag / 2"
    by (simp add: noise_def algebra_simps)
  have lo: "0 \<le> rnd k * mag"
    using r(1) assms(2) by (rule mult_nonneg_nonneg)
  have hi: "rnd k * mag \<le> mag"
    using mult_right_mono [of "rnd k" 1 mag] r(2) assms(2) by simp
  from eq lo show "- (mag / 2) \<le> noise rnd k mag"
    by linarith
  from eq hi show "noise rnd k mag \<le> mag / 2"
    by linarith
qed

lemma noise_strict_upper:
  assumes "draws_ok rnd" and "0 < mag"
  shows "noise rnd k mag < mag / 2"
proof -
  from assms(1) have r: "rnd k < 1"
    by (simp add: draws_ok_def)
  have eq: "noise rnd k mag = rnd k * mag - mag / 2"
    by (simp add: noise_def algebra_simps)
  have hi: "rnd k * mag < mag"
    using mult_strict_right_mono [of "rnd k" 1 mag] r assms(2) by simp
  from eq hi show ?thesis
    by linarith
qed

section \<open>Damage accrual\<close>

text \<open>
  Claim C2. In one tick each damage condition debits its health variable by \<open>rate \<cdot> dt\<close>,
  floored at 0, at the rates of the table, and a variable with two conditions is debited once
  for each condition that holds. The pump conditions read the tank levels the tick starts
  with; the pipe and membrane conditions read the pressures and the feed flow ramped, and the
  chlorine updated, earlier in the same tick, which are the values the tick leaves in the
  state.
\<close>

theorem damage_debits:
  "(let s' = fst (simulatePhysics ps c dt now rnd) in
     pump_well_health s' =
       (if wellfield_on c \<and> \<not> valve_101_open c then debit (pump_well_health ps) 0.3 dt
        else pump_well_health ps)
     \<and> pump_feed_health s' =
       (if ro_feed_pump_on c \<and> \<not> level_feed_tank ps > 0.2 then debit (pump_feed_health ps) 0.5 dt
        else pump_feed_health ps)
     \<and> pump_dist_health s' =
       (let h = pump_dist_health ps;
            h = (if dist_pump_on c \<and> level_clearwell ps < 0.2 then debit h 0.5 dt else h);
            h = (if dist_pump_on c \<and> \<not> valve_401_open c then debit h 0.3 dt else h)
        in h)
     \<and> pipe_well_health s' =
       (if pressure_well s' > 10 then debit (pipe_well_health ps) 0.2 dt else pipe_well_health ps)
     \<and> pipe_feed_health s' =
       (if pressure_feed s' > 20 then debit (pipe_feed_health ps) 0.5 dt else pipe_feed_health ps)
     \<and> pipe_dist_health s' =
       (if pressure_dist s' > 12 then debit (pipe_dist_health ps) 0.3 dt else pipe_dist_health ps)
     \<and> membrane_health s' =
       (let h = membrane_health ps;
            h = (if Cl_true s' > 0.1 \<and> Q_feed s' > 0 then debit h 0.2 dt else h);
            h = (if pressure_feed s' > 20 then debit h 1.0 dt else h)
        in h))"
proof -
  let ?s = "fst (simulatePhysics ps c dt now rnd)"
  have well: "pump_well_health ?s =
       (if wellfield_on c \<and> \<not> valve_101_open c then debit (pump_well_health ps) 0.3 dt
        else pump_well_health ps)"
    by (simp add: tick_pump_health debit_def)
  have feed: "pump_feed_health ?s =
       (if ro_feed_pump_on c \<and> \<not> level_feed_tank ps > 0.2 then debit (pump_feed_health ps) 0.5 dt
        else pump_feed_health ps)"
    by (simp add: tick_pump_health debit_def)
  have dist: "pump_dist_health ?s =
       (let h = pump_dist_health ps;
            h = (if dist_pump_on c \<and> level_clearwell ps < 0.2 then debit h 0.5 dt else h);
            h = (if dist_pump_on c \<and> \<not> valve_401_open c then debit h 0.3 dt else h)
        in h)"
    by (simp add: tick_pump_health debit_def Let_def)
  have pipes:
    "pipe_well_health ?s =
       (if pressure_well ?s > 10 then debit (pipe_well_health ps) 0.2 dt else pipe_well_health ps)"
    "pipe_feed_health ?s =
       (if pressure_feed ?s > 20 then debit (pipe_feed_health ps) 0.5 dt else pipe_feed_health ps)"
    "pipe_dist_health ?s =
       (if pressure_dist ?s > 12 then debit (pipe_dist_health ps) 0.3 dt else pipe_dist_health ps)"
    unfolding debit_def by (rule tick_pipe_health)+
  have membrane: "membrane_health ?s =
       (let h = membrane_health ps;
            h = (if Cl_true ?s > 0.1 \<and> Q_feed ?s > 0 then debit h 0.2 dt else h);
            h = (if pressure_feed ?s > 20 then debit h 1.0 dt else h)
        in h)"
    unfolding debit_def Let_def
    by (rule tick_membrane_health [unfolded Let_def])
  show ?thesis
    unfolding Let_def [of "fst (simulatePhysics ps c dt now rnd)"]
    by (intro conjI well feed dist pipes membrane)
qed

section \<open>RO feed targets\<close>

text \<open>
  Claim C3. The targets the tick computes for the RO feed are those of the four-case rule,
  with the suction head read from the feed tank level the tick starts with. The efficiency is
  read after the cavitation debit of the same tick, and the health before the tick gives the
  same targets. The feed flow and the feed pressure are then ramped towards these targets.
\<close>

theorem feed_targets_four_cases:
  "feed_targets c (level_feed_tank ps > 0.2) (valve_201_open c)
     (pump_feed_health (pump_damage ps c (level_feed_tank ps > 0.2) dt) / 100.0)
     = spec_feed_targets ps c
   \<and> feed_targets c (level_feed_tank ps > 0.2) (valve_201_open c) (pump_feed_health ps / 100.0)
     = spec_feed_targets ps c
   \<and> Q_feed (fst (simulatePhysics ps c dt now rnd))
     = Q_feed ps + (fst (spec_feed_targets ps c) - Q_feed ps) * 0.1
   \<and> pressure_feed (fst (simulatePhysics ps c dt now rnd))
     = pressure_feed ps + (snd (spec_feed_targets ps c) - pressure_feed ps) * 0.5"
proof -
  have eq: "feed_targets c (level_feed_tank ps > 0.2) (valve_201_open c) (pump_feed_health ps / 100)
      = spec_feed_targets ps c"
    by (simp add: feed_targets_def spec_feed_targets_def Let_def RO_FEED_RATE_def
        MAX_FEED_PRESSURE_def)
  then show ?thesis
    by (simp add: feed_targets_efficiency tick_flows tick_pressures)
qed

section \<open>Health is bounded and never rises in a tick\<close>

lemma tick_pump_health_bounds:
  assumes "0 \<le> dt"
  shows "0 \<le> pump_feed_health ps \<Longrightarrow>
           0 \<le> pump_feed_health (fst (simulatePhysics ps c dt now rnd))
           \<and> pump_feed_health (fst (simulatePhysics ps c dt now rnd)) \<le> pump_feed_health ps"
    and "0 \<le> pump_well_health ps \<Longrightarrow>
           0 \<le> pump_well_health (fst (simulatePhysics ps c dt now rnd))
           \<and> pump_well_health (fst (simulatePhysics ps c dt now rnd)) \<le> pump_well_health ps"
    and "0 \<le> pump_dist_health ps \<Longrightarrow>
           0 \<le> pump_dist_health (fst (simulatePhysics ps c dt now rnd))
           \<and> pump_dist_health (fst (simulatePhysics ps c dt now rnd)) \<le> pump_dist_health ps"
  using assms by (auto simp: tick_pump_health Let_def max_def)

lemma tick_pipe_health_bounds:
  assumes "0 \<le> dt"
  shows "0 \<le> pipe_well_health ps \<Longrightarrow>
           0 \<le> pipe_well_health (fst (simulatePhysics ps c dt now rnd))
           \<and> pipe_well_health (fst (simulatePhysics ps c dt now rnd)) \<le> pipe_well_health ps"
    and "0 \<le> pipe_feed_health ps \<Longrightarrow>
           0 \<le> pipe_feed_health (fst (simulatePhysics ps c dt now rnd))
           \<and> pipe_feed_health (fst (simulatePhysics ps c dt now rnd)) \<le> pipe_feed_health ps"
    and "0 \<le> pipe_dist_health ps \<Longrightarrow>
           0 \<le> pipe_dist_health (fst (simulatePhysics ps c dt now rnd))
           \<and> pipe_dist_health (fst (simulatePhysics ps c dt now rnd)) \<le> pipe_dist_health ps"
proof -
  show "0 \<le> pipe_well_health ps \<Longrightarrow>
           0 \<le> pipe_well_health (fst (simulatePhysics ps c dt now rnd))
           \<and> pipe_well_health (fst (simulatePhysics ps c dt now rnd)) \<le> pipe_well_health ps"
    using assms by (subst (1 2) tick_pipe_health) (auto simp: max_def)
  show "0 \<le> pipe_feed_health ps \<Longrightarrow>
           0 \<le> pipe_feed_health (fst (simulatePhysics ps c dt now rnd))
           \<and> pipe_feed_health (fst (simulatePhysics ps c dt now rnd)) \<le> pipe_feed_health ps"
    using assms by (subst (1 2) tick_pipe_health) (auto simp: max_def)
  show "0 \<le> pipe_dist_health ps \<Longrightarrow>
           0 \<le> pipe_dist_health (fst (simulatePhysics ps c dt now rnd))
           \<and> pipe_dist_health (fst (simulatePhysics ps c dt now rnd)) \<le> pipe_dist_health ps"
    using assms by (subst (1 2) tick_pipe_health) (auto simp: max_def)
qed

lemma tick_membrane_health_bounds:
  assumes "0 \<le> dt" and "0 \<le> membrane_health ps"
  shows "0 \<le> membrane_health (fst (simulatePhysics ps c dt now rnd))
         \<and> membrane_health (fst (simulatePhysics ps c dt now rnd)) \<le> membrane_health ps"
  using assms by (subst (1 2) tick_membrane_health) (auto simp: Let_def max_def)

lemma tick_health:
  assumes "health_ok ps" and "0 \<le> dt"
  shows "health_ok (fst (simulatePhysics ps c dt now rnd))"
    and "health_le (fst (simulatePhysics ps c dt now rnd)) ps"
proof -
  note b = tick_pump_health_bounds [OF assms(2), of ps c now rnd]
    tick_pipe_health_bounds [OF assms(2), of ps c now rnd]
    tick_membrane_health_bounds [OF assms(2), of ps c now rnd]
  from assms(1) b show "health_le (fst (simulatePhysics ps c dt now rnd)) ps"
    unfolding health_ok_def health_le_def by blast
  from assms(1) b show "health_ok (fst (simulatePhysics ps c dt now rnd))"
    unfolding health_ok_def by (meson order_trans)
qed

lemma health_le_refl: "health_le ps ps"
  by (simp add: health_le_def)

lemma health_le_trans: "health_le a b \<Longrightarrow> health_le b c \<Longrightarrow> health_le a c"
  unfolding health_le_def by (meson order_trans)

lemma resetDamage_health_ok: "health_ok (resetDamage ps)"
  by (simp add: health_ok_def resetDamage_def Let_def)

lemma physicsState_init_health_ok: "health_ok physicsState_init"
  by (simp add: health_ok_def physicsState_init_def)

lemma run_ticks_health:
  assumes "health_ok ps" and "\<forall>t\<in>set ts. 0 \<le> tick_dt t"
  shows "health_ok (run_ticks ps ts) \<and> health_le (run_ticks ps ts) ps"
  using assms
proof (induction ts arbitrary: ps)
  case Nil
  then show ?case by (simp add: health_le_refl)
next
  case (Cons t ts)
  obtain c dt now rnd where t: "t = (c, dt, now, rnd)"
    by (cases t) auto
  let ?s = "fst (simulatePhysics ps c dt now rnd)"
  from Cons.prems t have dt: "0 \<le> dt"
    by (simp add: tick_dt_def)
  from Cons.prems(1) dt have step: "health_ok ?s" "health_le ?s ps"
    by (rule tick_health)+
  from Cons.prems(2) have rest: "\<forall>t\<in>set ts. 0 \<le> tick_dt t"
    by simp
  from Cons.IH [OF step(1) rest] step(2) t show ?case
    by (auto intro: health_le_trans)
qed

lemma apply_event_health_ok:
  assumes "health_ok ps" and "event_dt_ok e"
  shows "health_ok (apply_event ps e)"
proof (cases e)
  case (Tick t)
  obtain c dt now rnd where t: "t = (c, dt, now, rnd)"
    by (cases t) auto
  with assms Tick show ?thesis
    by (simp add: tick_dt_def tick_health(1))
next
  case ResetDamage
  then show ?thesis by (simp add: resetDamage_health_ok)
qed

lemma run_events_health_ok:
  assumes "health_ok ps" and "\<forall>e\<in>set es. event_dt_ok e"
  shows "health_ok (run_events ps es)"
  using assms by (induction es arbitrary: ps) (simp_all add: apply_event_health_ok)

text \<open>
  Claim C1. The cold-start state has every health variable in \<open>[0, 100]\<close>, and so has every
  state reached from it by ticks with \<open>dt \<ge> 0\<close> and resets. From any state with health in
  range, a sequence of ticks with \<open>dt \<ge> 0\<close> (a single tick is the sequence of one) leaves
  every health variable in \<open>[0, 100]\<close> and not above the value it started with. An event that
  raises a health variable is a reset.
\<close>

theorem health_bounded_monotone:
  assumes "health_ok ps"
    and "\<forall>t\<in>set ts. 0 \<le> tick_dt t"
    and "\<forall>e\<in>set es. event_dt_ok e"
    and "event_dt_ok e"
  shows "health_ok physicsState_init
       \<and> health_ok (run_events physicsState_init es)
       \<and> health_ok (run_ticks ps ts) \<and> health_le (run_ticks ps ts) ps
       \<and> health_ok (apply_event ps e)
       \<and> (\<not> health_le (apply_event ps e) ps \<longrightarrow> e = ResetDamage)"
proof -
  have raise: "e = ResetDamage" if "\<not> health_le (apply_event ps e) ps"
  proof (cases e)
    case (Tick t)
    obtain c dt now rnd where t: "t = (c, dt, now, rnd)"
      by (cases t) auto
    with assms(1,4) Tick have "health_le (apply_event ps e) ps"
      by (simp add: tick_dt_def tick_health(2))
    with that show ?thesis by simp
  next
    case ResetDamage
    then show ?thesis .
  qed
  from run_ticks_health [OF assms(1,2)]
    run_events_health_ok [OF physicsState_init_health_ok assms(3)]
    apply_event_health_ok [OF assms(1,4)] raise physicsState_init_health_ok
  show ?thesis by blast
qed

theorem health_bounded_monotone_witness:
  "health_ok (run_events physicsState_init [Tick S1_tick, ResetDamage, Tick S1_tick])
   \<and> health_ok (run_ticks physicsState_init [S1_tick, S1_tick])
   \<and> health_le (run_ticks physicsState_init [S1_tick, S1_tick]) physicsState_init
   \<and> health_ok (apply_event physicsState_init (Tick S1_tick))
   \<and> health_le (apply_event physicsState_init (Tick S1_tick)) physicsState_init"
proof -
  have dt: "0 \<le> tick_dt S1_tick"
    by (simp add: tick_dt_def S1_tick_def)
  have h1: "health_ok physicsState_init"
    by (simp add: health_ok_def physicsState_init_def)
  have h2: "\<forall>t\<in>set [S1_tick, S1_tick]. 0 \<le> tick_dt t"
    using dt by simp
  have h3: "\<forall>e\<in>set [Tick S1_tick, ResetDamage, Tick S1_tick]. event_dt_ok e"
    using dt by simp
  have h4: "event_dt_ok (Tick S1_tick)"
    using dt by simp
  from health_bounded_monotone [OF h1 h2 h3 h4] show ?thesis
    by auto
qed

section \<open>Chlorine\<close>

lemma current_Cl_spec:
  assumes "0 \<le> Cl_dose c"
  shows "(if cl_pump_on c then
            (if q > 5 then max 0 (Cl_dose c * 0.9) else if Cl_dose c > 0 then 50.0 else 0)
          else 0) = spec_current_Cl c q"
  using assms by (auto simp: spec_current_Cl_def max_def)

lemma tick_Cl_true_spec:
  assumes "0 \<le> Cl_dose c"
  shows "Cl_true (fst (simulatePhysics ps c dt now rnd)) =
     Cl_true ps
     + 0.1 * (spec_current_Cl c (Q_feed (fst (simulatePhysics ps c dt now rnd))) - Cl_true ps)"
  by (subst tick_Cl_true, subst current_Cl_spec [OF assms]) simp

lemma stagnant_tick:
  assumes "cl_pump_on c" and "0 < Cl_dose c"
    and "Q_feed (fst (simulatePhysics ps c dt now rnd)) < 5"
  shows "50 - Cl_true (fst (simulatePhysics ps c dt now rnd)) = 0.9 * (50 - Cl_true ps)"
  using assms by (subst tick_Cl_true) (simp add: field_simps)

lemma stagnant_run:
  assumes "stagnant_dosing ps ts"
  shows "50 - Cl_true (run_ticks ps ts) = 0.9 ^ length ts * (50 - Cl_true ps)"
  using assms
proof (induction ts arbitrary: ps)
  case Nil
  then show ?case by simp
next
  case (Cons t ts)
  obtain c dt now rnd where t: "t = (c, dt, now, rnd)"
    by (cases t) auto
  let ?s = "fst (simulatePhysics ps c dt now rnd)"
  from Cons.prems t have step: "cl_pump_on c" "0 < Cl_dose c" "Q_feed ?s < 5"
    and rest: "stagnant_dosing ?s ts"
    by simp_all
  have "50 - Cl_true (run_ticks ps (t # ts)) = 0.9 ^ length ts * (50 - Cl_true ?s)"
    using Cons.IH [OF rest] t by simp
  also have "\<dots> = 0.9 ^ length ts * (0.9 * (50 - Cl_true ps))"
    by (simp only: stagnant_tick [OF step])
  finally show ?case by simp
qed

text \<open>
  Claim C6. With a dose that is not negative, the tick moves \<open>Cl_true\<close> a tenth of the way to
  the chlorine target of the three-case rule, evaluated at the feed flow ramped earlier in the
  same tick. Over a run that holds the chlorine pump on with a positive dose and a feed flow
  below 5, the distance of \<open>Cl_true\<close> from 50 shrinks by the factor 0.9 in every tick.
\<close>

theorem chlorine_model:
  assumes "0 \<le> Cl_dose c" and "stagnant_dosing ps ts"
  shows "Cl_true (fst (simulatePhysics ps c dt now rnd)) =
           Cl_true ps
           + 0.1 * (spec_current_Cl c (Q_feed (fst (simulatePhysics ps c dt now rnd))) - Cl_true ps)
         \<and> 50 - Cl_true (run_ticks ps ts) = 0.9 ^ length ts * (50 - Cl_true ps)
         \<and> \<bar>50 - Cl_true (run_ticks ps ts)\<bar> \<le> \<bar>50 - Cl_true ps\<bar>"
proof -
  have run: "50 - Cl_true (run_ticks ps ts) = 0.9 ^ length ts * (50 - Cl_true ps)"
    by (rule stagnant_run [OF assms(2)])
  have "(0.9::real) ^ length ts \<le> 1"
    by (rule power_le_one) simp_all
  then have "\<bar>0.9 ^ length ts * (50 - Cl_true ps)\<bar> \<le> 1 * \<bar>50 - Cl_true ps\<bar>"
    unfolding abs_mult by (intro mult_right_mono) simp_all
  with run tick_Cl_true_spec [OF assms(1)] show ?thesis
    by simp
qed

lemma dosing_tick_Q_feed:
  "Q_feed ps = 0 \<Longrightarrow> Q_feed (fst (simulatePhysics ps dosing_controls dt now rnd)) = 0"
  by (simp add: tick_flows feed_targets_def dosing_controls_def currentControls_init_def)

theorem chlorine_model_witness:
  "Cl_true (fst (simulatePhysics physicsState_init dosing_controls 0.1 0 (draws_const 0))) = 5
   \<and> Cl_true (run_ticks physicsState_init [dosing_tick, dosing_tick]) = 9.5"
proof -
  have dose: "0 \<le> Cl_dose dosing_controls"
    by (simp add: dosing_controls_def currentControls_init_def)
  have c: "cl_pump_on dosing_controls" "0 < Cl_dose dosing_controls"
    by (simp_all add: dosing_controls_def currentControls_init_def)
  have q0: "Q_feed physicsState_init = 0"
    by (simp add: physicsState_init_def)
  have q1: "Q_feed (fst (simulatePhysics physicsState_init dosing_controls 0.1 0 (draws_const 0))) = 0"
    by (rule dosing_tick_Q_feed [OF q0])
  have q2: "Q_feed (fst (simulatePhysics
      (fst (simulatePhysics physicsState_init dosing_controls 0.1 0 (draws_const 0)))
      dosing_controls 0.1 0 (draws_const 0))) = 0"
    by (rule dosing_tick_Q_feed [OF q1])
  have run: "stagnant_dosing physicsState_init [dosing_tick, dosing_tick]"
    by (simp add: dosing_tick_def c q1 q2)
  have cl0: "Cl_true physicsState_init = 0"
    by (simp add: physicsState_init_def)
  from chlorine_model [OF dose run, of "0.1" 0 "draws_const 0"] show ?thesis
    by (simp add: q1 cl0 spec_current_Cl_def c power2_eq_square)
qed

section \<open>Tank levels\<close>

text \<open>
  Claim C7. After a tick, from any state and under any controls, the feed tank level lies in
  \<open>[0, 5]\<close> and the clearwell level in \<open>[0, 6]\<close>: each is the mass-balance update clamped
  into its range, so what the update puts beyond a bound is dropped. The snapshot publishes
  the clamped levels.
\<close>

theorem levels_clamped:
  "(let s' = fst (simulatePhysics ps c dt now rnd);
        out = snd (simulatePhysics ps c dt now rnd)
    in 0 \<le> level_feed_tank s' \<and> level_feed_tank s' \<le> 5
       \<and> 0 \<le> level_clearwell s' \<and> level_clearwell s' \<le> 6
       \<and> level_feed_tank s' =
           max 0 (min 5 (level_feed_tank ps
             + (Q_wellfield s' - Q_feed s') * (dt / 3600) / TANK_AREA_FEED))
       \<and> level_clearwell s' =
           max 0 (min 6 (level_clearwell ps
             + (Q_feed s' * ro_recovery - Q_out s') * (dt / 3600) / TANK_AREA_CLEARWELL))
       \<and> level_feed_tank_pub out = level_feed_tank s'
       \<and> level_clearwell_pub out = level_clearwell s')"
proof -
  let ?s = "fst (simulatePhysics ps c dt now rnd)"
  have feed: "level_feed_tank ?s =
      max 0 (min 5 (level_feed_tank ps + (Q_wellfield ?s - Q_feed ?s) * (dt / 3600) / TANK_AREA_FEED))"
    unfolding TANK_AREA_FEED_def by (rule tick_levels)
  have clear: "level_clearwell ?s =
      max 0 (min 6 (level_clearwell ps
        + (Q_feed ?s * ro_recovery - Q_out ?s) * (dt / 3600) / TANK_AREA_CLEARWELL))"
    unfolding TANK_AREA_CLEARWELL_def ro_recovery_def by (rule tick_levels)
  have range: "0 \<le> level_feed_tank ?s" "level_feed_tank ?s \<le> 5"
    "0 \<le> level_clearwell ?s" "level_clearwell ?s \<le> 6"
    by (subst feed, simp)+  (subst clear, simp)+
  have pub: "level_feed_tank_pub (snd (simulatePhysics ps c dt now rnd)) = level_feed_tank ?s"
    "level_clearwell_pub (snd (simulatePhysics ps c dt now rnd)) = level_clearwell ?s"
    by (simp_all only: snd_simulatePhysics emit_plain)
  show ?thesis
    unfolding Let_def by (intro conjI range feed clear pub)
qed

section \<open>Scenario S1: P-201 deadhead\<close>













section \<open>Published flows and pressures\<close>

lemma snap_fst: "fst (snap rnd k cond x mag) = (if cond then x + noise rnd k mag else 0)"
  by (simp add: snap_def)

lemma jitter_fst: "fst (jitter rnd k x mag) = x + noise rnd k mag"
  by (simp add: jitter_def)

lemma noise_draws_const_half: "noise (draws_const (1/2)) k mag = 0"
  by (simp add: noise_def draws_const_def)

text \<open>The three published flows of the RO stage, from a feed flow \<open>f\<close> and three draws.\<close>

lemma snapped_balance_bound:
  assumes "draws_ok rnd"
  shows "\<bar>fst (snap rnd k1 (f > 1) f 2)
          - (fst (snap rnd k2 (f * ro_recovery > 0.1) (f * ro_recovery) 1)
             + fst (snap rnd k3 (f - f * ro_recovery > 0.1) (f - f * ro_recovery) 1))\<bar> < 2"
proof -
  have n1: "- 1 \<le> noise rnd k1 2" "noise rnd k1 2 < 1"
    using noise_bounds(1) [OF assms, of 2 k1] noise_strict_upper [OF assms, of 2 k1] by simp_all
  have n2: "- (1/2) \<le> noise rnd k2 1" "noise rnd k2 1 < 1/2"
    using noise_bounds(1) [OF assms, of 1 k2] noise_strict_upper [OF assms, of 1 k2] by simp_all
  have n3: "- (1/2) \<le> noise rnd k3 1" "noise rnd k3 1 < 1/2"
    using noise_bounds(1) [OF assms, of 1 k3] noise_strict_upper [OF assms, of 1 k3] by simp_all
  show ?thesis
  proof (cases "f > 1")
    case True
    with n1 n2 n3 show ?thesis
      by (simp add: snap_fst ro_recovery_def abs_less_iff)
  next
    case False
    with n1 n2 n3 show ?thesis
      by (cases "f * (3/4) > 1/10"; cases "f - f * (3/4) > 1/10")
        (simp_all add: snap_fst ro_recovery_def abs_less_iff)
  qed
qed

lemma published_balance:
  assumes "draws_ok rnd"
  shows "\<bar>Q_feed_pub (emit ps (Q_feed ps * ro_recovery) r a now rnd)
          - (Q_perm_pub (emit ps (Q_feed ps * ro_recovery) r a now rnd)
             + Q_brine_pub (emit ps (Q_feed ps * ro_recovery) r a now rnd))\<bar> < 2"
proof -
  let ?q = "Q_feed ps * ro_recovery"
  obtain k1 where k1: "Q_feed_pub (emit ps ?q r a now rnd) = fst (snap rnd k1 (Q_feed ps > 1) (Q_feed ps) 2)"
    using emit_flows(2) by blast
  obtain k2 where k2: "Q_perm_pub (emit ps ?q r a now rnd) = fst (snap rnd k2 (?q > 0.1) ?q 1)"
    using emit_flows(3) by blast
  obtain k3 where k3: "Q_brine_pub (emit ps ?q r a now rnd)
      = fst (snap rnd k3 (Q_feed ps - ?q > 0.1) (Q_feed ps - ?q) 1)"
    using emit_flows(4) by blast
  show ?thesis
    unfolding k1 k2 k3 by (rule snapped_balance_bound [OF assms])
qed

lemma unjittered_balance:
  assumes "Q_feed ps > 1"
  shows "Q_perm_pub (emit ps (Q_feed ps * ro_recovery) r a now (draws_const 0.5))
         + Q_brine_pub (emit ps (Q_feed ps * ro_recovery) r a now (draws_const 0.5))
         = Q_feed_pub (emit ps (Q_feed ps * ro_recovery) r a now (draws_const 0.5))"
proof -
  let ?q = "Q_feed ps * ro_recovery"
  let ?rnd = "draws_const 0.5"
  obtain k1 where k1: "Q_feed_pub (emit ps ?q r a now ?rnd) = fst (snap ?rnd k1 (Q_feed ps > 1) (Q_feed ps) 2)"
    using emit_flows(2) by blast
  obtain k2 where k2: "Q_perm_pub (emit ps ?q r a now ?rnd) = fst (snap ?rnd k2 (?q > 0.1) ?q 1)"
    using emit_flows(3) by blast
  obtain k3 where k3: "Q_brine_pub (emit ps ?q r a now ?rnd)
      = fst (snap ?rnd k3 (Q_feed ps - ?q > 0.1) (Q_feed ps - ?q) 1)"
    using emit_flows(4) by blast
  have "fst (snap ?rnd k2 (?q > 0.1) ?q 1)
        + fst (snap ?rnd k3 (Q_feed ps - ?q > 0.1) (Q_feed ps - ?q) 1)
        = fst (snap ?rnd k1 (Q_feed ps > 1) (Q_feed ps) 2)"
    using assms by (simp add: snap_fst noise_draws_const_half ro_recovery_def)
  then show ?thesis
    by (simp only: k1 k2 k3)
qed

text \<open>
  The feed flow stays in \<open>[0, 100]\<close>: its target is \<open>100 \<cdot> \<eta>\<close> at most, and the pump health
  behind \<open>\<eta>\<close> stays in \<open>[0, 100]\<close>.
\<close>

lemma feed_target_range:
  assumes "0 \<le> e" and "e \<le> 1"
  shows "0 \<le> fst (feed_targets c ok v e)" and "fst (feed_targets c ok v e) \<le> 100"
  using assms by (simp_all add: feed_targets_def RO_FEED_RATE_def)

lemma ramp_range:
  fixes x t :: real
  assumes "0 \<le> x" and "x \<le> 100" and "0 \<le> t" and "t \<le> 100"
  shows "0 \<le> x + (t - x) * 0.1" and "x + (t - x) * 0.1 \<le> 100"
proof -
  have eq: "x + (t - x) * 0.1 = x + (t - x) / 10"
    by simp
  from assms show "0 \<le> x + (t - x) * 0.1"
    unfolding eq by (simp add: field_simps)
  from assms show "x + (t - x) * 0.1 \<le> 100"
    unfolding eq by (simp add: field_simps)
qed

lemma tick_Q_feed_range:
  assumes "health_ok ps" and "0 \<le> Q_feed ps" and "Q_feed ps \<le> 100"
  shows "0 \<le> Q_feed (fst (simulatePhysics ps c dt now rnd))"
    and "Q_feed (fst (simulatePhysics ps c dt now rnd)) \<le> 100"
proof -
  from assms(1) have e: "0 \<le> pump_feed_health ps / 100" "pump_feed_health ps / 100 \<le> 1"
    by (simp_all add: health_ok_def)
  note t = feed_target_range [OF e, of c "level_feed_tank ps > 0.2" "valve_201_open c"]
  show "0 \<le> Q_feed (fst (simulatePhysics ps c dt now rnd))"
    unfolding tick_flows by (rule ramp_range(1) [OF assms(2,3) t])
  show "Q_feed (fst (simulatePhysics ps c dt now rnd)) \<le> 100"
    unfolding tick_flows by (rule ramp_range(2) [OF assms(2,3) t])
qed

lemma apply_event_Q_feed_range:
  assumes "health_ok ps \<and> 0 \<le> Q_feed ps \<and> Q_feed ps \<le> 100" and "event_dt_ok e"
  shows "health_ok (apply_event ps e) \<and> 0 \<le> Q_feed (apply_event ps e)
         \<and> Q_feed (apply_event ps e) \<le> 100"
proof (cases e)
  case (Tick t)
  obtain c dt now rnd where t: "t = (c, dt, now, rnd)"
    by (cases t) auto
  from assms have "health_ok (apply_event ps e)"
    by (intro apply_event_health_ok) simp_all
  moreover from assms(1) have "0 \<le> Q_feed (fst (simulatePhysics ps c dt now rnd))"
    "Q_feed (fst (simulatePhysics ps c dt now rnd)) \<le> 100"
    by (intro tick_Q_feed_range; simp)+
  ultimately show ?thesis
    by (simp add: Tick t)
next
  case ResetDamage
  with assms(1) show ?thesis
    by (simp add: resetDamage_health_ok) (simp add: resetDamage_def Let_def)
qed

lemma run_events_Q_feed_range:
  assumes "health_ok ps \<and> 0 \<le> Q_feed ps \<and> Q_feed ps \<le> 100" and "\<forall>e\<in>set es. event_dt_ok e"
  shows "health_ok (run_events ps es) \<and> 0 \<le> Q_feed (run_events ps es)
         \<and> Q_feed (run_events ps es) \<le> 100"
  using assms
proof (induction es arbitrary: ps)
  case Nil
  then show ?case by simp
next
  case (Cons e es)
  from Cons.prems have "health_ok (apply_event ps e) \<and> 0 \<le> Q_feed (apply_event ps e)
      \<and> Q_feed (apply_event ps e) \<le> 100"
    by (intro apply_event_Q_feed_range) simp_all
  with Cons.prems(2) show ?case
    by (simp add: Cons.IH)
qed

lemma physicsState_init_Q_feed_range:
  "health_ok physicsState_init \<and> 0 \<le> Q_feed physicsState_init \<and> Q_feed physicsState_init \<le> 100"
  by (simp add: physicsState_init_health_ok) (simp add: physicsState_init_def)

text \<open>
  Claim C4, as amended. The flows before jitter balance exactly: without jitter (every draw
  0.5) and above the snap-to-zero threshold of the feed flow, the published permeate and brine
  flows add up to the published feed flow. With jitter, each of the three published flows
  carries its own draw and its own snap-to-zero threshold. In every tick from a state reached
  from the cold start by resets and by ticks with \<open>dt \<ge> 0\<close>, the feed flow lies in
  \<open>[0, 100]\<close> and, for every stream of draws, the published values satisfy
  \<open>|Q_feed - (Q_perm + Q_brine)| \<le> 2 + 10\<^sup>-\<^sup>9\<close>. In exact arithmetic the jitters of 1, 0.5 and
  0.5 keep the imbalance below 2; the code's floating-point additions can round a published
  flow up to the edge of its jitter, so the imbalance can reach 2 and pass it by a rounding
  error. On flows of at most 101 that error is below \<open>10\<^sup>-\<^sup>1\<^sup>2\<close>, which the allowance of
  \<open>10\<^sup>-\<^sup>9\<close> covers.
\<close>

theorem published_mass_balance:
  assumes "\<forall>e\<in>set es. event_dt_ok e" and "draws_ok rnd"
  shows "(let ps = run_events physicsState_init es;
              s' = fst (simulatePhysics ps c dt now rnd);
              out = snd (simulatePhysics ps c dt now rnd);
              s0 = fst (simulatePhysics ps c dt now (draws_const 0.5));
              out0 = snd (simulatePhysics ps c dt now (draws_const 0.5))
          in 0 \<le> Q_feed s' \<and> Q_feed s' \<le> 100
             \<and> \<bar>Q_feed_pub out - (Q_perm_pub out + Q_brine_pub out)\<bar> \<le> 2 + 1 / 10 ^ 9
             \<and> (Q_feed s0 > 1 \<longrightarrow> Q_perm_pub out0 + Q_brine_pub out0 = Q_feed_pub out0))"
proof -
  let ?ps = "run_events physicsState_init es"
  have reach: "health_ok ?ps \<and> 0 \<le> Q_feed ?ps \<and> Q_feed ?ps \<le> 100"
    by (rule run_events_Q_feed_range [OF physicsState_init_Q_feed_range assms(1)])
  then have range: "0 \<le> Q_feed (fst (simulatePhysics ?ps c dt now rnd))"
    "Q_feed (fst (simulatePhysics ?ps c dt now rnd)) \<le> 100"
    by (intro tick_Q_feed_range; simp)+
  have "\<bar>Q_feed_pub (snd (simulatePhysics ?ps c dt now rnd))
          - (Q_perm_pub (snd (simulatePhysics ?ps c dt now rnd))
             + Q_brine_pub (snd (simulatePhysics ?ps c dt now rnd)))\<bar> < 2"
    unfolding snd_simulatePhysics by (rule published_balance [OF assms(2)])
  then have bound: "\<bar>Q_feed_pub (snd (simulatePhysics ?ps c dt now rnd))
          - (Q_perm_pub (snd (simulatePhysics ?ps c dt now rnd))
             + Q_brine_pub (snd (simulatePhysics ?ps c dt now rnd)))\<bar> \<le> 2 + 1 / 10 ^ 9"
    by simp
  have exact: "Q_perm_pub (snd (simulatePhysics ?ps c dt now (draws_const 0.5)))
      + Q_brine_pub (snd (simulatePhysics ?ps c dt now (draws_const 0.5)))
      = Q_feed_pub (snd (simulatePhysics ?ps c dt now (draws_const 0.5)))"
    if "Q_feed (fst (simulatePhysics ?ps c dt now (draws_const 0.5))) > 1"
    unfolding snd_simulatePhysics using that by (intro unjittered_balance) simp
  show ?thesis
    unfolding Let_def by (intro conjI impI range bound exact)
qed

lemma feed_running_first_tick:
  "Q_wellfield (fst (simulatePhysics physicsState_init feed_running_controls dt now rnd)) = 0"
  "Q_feed (fst (simulatePhysics physicsState_init feed_running_controls dt now rnd)) = 10"
  by (simp_all add: tick_flows well_targets_def feed_targets_def feed_running_controls_def
      currentControls_init_def physicsState_init_def RO_FEED_RATE_def)

lemma feed_running_published:
  "Q_feed_pub (snd (simulatePhysics physicsState_init feed_running_controls dt now draws_skewed)) = 9"
  "Q_perm_pub (snd (simulatePhysics physicsState_init feed_running_controls dt now draws_skewed)) = 79/10"
  "Q_brine_pub (snd (simulatePhysics physicsState_init feed_running_controls dt now draws_skewed)) = 29/10"
  unfolding snd_simulatePhysics
  by (simp_all add: emit_def Let_def split_def snap_def jitter_def noise_def draws_skewed_def
      feed_running_first_tick ro_recovery_def)

lemma draws_skewed_ok: "draws_ok draws_skewed"
  by (simp add: draws_ok_def draws_skewed_def)

lemma reset_at_cold_start: "run_events physicsState_init [ResetDamage] = physicsState_init"
  by (simp add: resetDamage_def Let_def physicsState_init_def)

theorem published_mass_balance_witness:
  "Q_feed (fst (simulatePhysics (run_events physicsState_init [ResetDamage])
       feed_running_controls 0.1 0 draws_skewed)) = 10
   \<and> \<bar>Q_feed_pub (snd (simulatePhysics (run_events physicsState_init [ResetDamage])
          feed_running_controls 0.1 0 draws_skewed))
     - (Q_perm_pub (snd (simulatePhysics (run_events physicsState_init [ResetDamage])
          feed_running_controls 0.1 0 draws_skewed))
        + Q_brine_pub (snd (simulatePhysics (run_events physicsState_init [ResetDamage])
          feed_running_controls 0.1 0 draws_skewed)))\<bar>
     \<le> 2 + 1 / 10 ^ 9
   \<and> Q_perm_pub (snd (simulatePhysics (run_events physicsState_init [ResetDamage])
       feed_running_controls 0.1 0 (draws_const 0.5)))
     + Q_brine_pub (snd (simulatePhysics (run_events physicsState_init [ResetDamage])
       feed_running_controls 0.1 0 (draws_const 0.5)))
     = Q_feed_pub (snd (simulatePhysics (run_events physicsState_init [ResetDamage])
       feed_running_controls 0.1 0 (draws_const 0.5)))"
proof -
  have es: "\<forall>e\<in>set [ResetDamage]. event_dt_ok e"
    by simp
  from published_mass_balance [OF es draws_skewed_ok, of feed_running_controls "0.1" 0]
  show ?thesis
    unfolding Let_def reset_at_cold_start by (simp add: feed_running_first_tick)
qed

text \<open>
  The claim as stated fails: one tick after the RO feed is started from a cold start, with a
  low draw for the feed flow and high draws for permeate and brine, the published flows are
  9, 7.9 and 2.9, and the balance is off by 1.8.
\<close>

theorem published_mass_balance_off:
  "\<bar>Q_feed_pub (snd (simulatePhysics physicsState_init feed_running_controls 0.1 0 draws_skewed))
     - (Q_perm_pub (snd (simulatePhysics physicsState_init feed_running_controls 0.1 0 draws_skewed))
        + Q_brine_pub (snd (simulatePhysics physicsState_init feed_running_controls 0.1 0 draws_skewed)))\<bar>
   = 1.8"
  by (simp add: feed_running_published)

section \<open>Flows and pressures are not negative\<close>

lemma ramp_nonneg:
  fixes x t a :: real
  assumes "0 \<le> x" and "0 \<le> t" and "0 \<le> a" and "a \<le> 1"
  shows "0 \<le> x + (t - x) * a"
proof -
  have "x + (t - x) * a = x * (1 - a) + t * a"
    by (simp add: algebra_simps)
  moreover have "0 \<le> x * (1 - a)" "0 \<le> t * a"
    using assms by simp_all
  ultimately show ?thesis
    by simp
qed

lemma well_targets_nonneg: "0 \<le> fst (well_targets c)" "0 \<le> snd (well_targets c)"
  by (simp_all add: well_targets_def WELL_FLOW_RATE_def)

lemma feed_targets_nonneg:
  assumes "0 \<le> e"
  shows "0 \<le> fst (feed_targets c ok v e)" "0 \<le> snd (feed_targets c ok v e)"
  using assms by (simp_all add: feed_targets_def RO_FEED_RATE_def MAX_FEED_PRESSURE_def)

lemma dist_targets_nonneg:
  assumes "0 \<le> Q_out_sp c"
  shows "0 \<le> fst (dist_targets ps c)" "0 \<le> snd (dist_targets ps c)"
  using assms by (simp_all add: dist_targets_def DIST_PUMP_CAPACITY_def)

lemma tick_flows_pressures_ok:
  assumes "flows_pressures_ok ps" and "0 \<le> pump_feed_health ps" and "0 \<le> Q_out_sp c"
  shows "flows_pressures_ok (fst (simulatePhysics ps c dt now rnd))"
    and "0 \<le> pump_feed_health (fst (simulatePhysics ps c dt now rnd))"
proof -
  from assms(1) have pre: "0 \<le> Q_wellfield ps" "0 \<le> Q_feed ps" "0 \<le> Q_out ps"
    "0 \<le> pressure_well ps" "0 \<le> pressure_feed ps" "0 \<le> pressure_dist ps"
    by (simp_all add: flows_pressures_ok_def)
  from assms(2) have e: "0 \<le> pump_feed_health ps / 100"
    by simp
  show "flows_pressures_ok (fst (simulatePhysics ps c dt now rnd))"
    unfolding flows_pressures_ok_def tick_flows tick_pressures
    by (intro conjI ramp_nonneg pre well_targets_nonneg feed_targets_nonneg [OF e]
        dist_targets_nonneg [OF assms(3)]) simp_all
  from assms(2) show "0 \<le> pump_feed_health (fst (simulatePhysics ps c dt now rnd))"
    by (simp add: tick_pump_health)
qed

lemma resetDamage_flows_pressures_ok:
  assumes "flows_pressures_ok ps"
  shows "flows_pressures_ok (resetDamage ps)" and "0 \<le> pump_feed_health (resetDamage ps)"
  using assms by (simp_all add: flows_pressures_ok_def resetDamage_def Let_def)

lemma apply_event_flows_pressures_ok:
  assumes "flows_pressures_ok ps \<and> 0 \<le> pump_feed_health ps" and "event_sp_ok e"
  shows "flows_pressures_ok (apply_event ps e) \<and> 0 \<le> pump_feed_health (apply_event ps e)"
proof (cases e)
  case (Tick t)
  obtain c dt now rnd where t: "t = (c, dt, now, rnd)"
    by (cases t) auto
  from assms(2) Tick t have sp: "0 \<le> Q_out_sp c"
    by (simp add: tick_controls_def)
  from assms(1) show ?thesis
    unfolding Tick t apply_event.simps
    by (intro conjI tick_flows_pressures_ok sp) simp_all
next
  case ResetDamage
  with assms(1) show ?thesis
    by (simp add: resetDamage_flows_pressures_ok)
qed

lemma run_events_flows_pressures_ok:
  assumes "flows_pressures_ok ps \<and> 0 \<le> pump_feed_health ps" and "\<forall>e\<in>set es. event_sp_ok e"
  shows "flows_pressures_ok (run_events ps es) \<and> 0 \<le> pump_feed_health (run_events ps es)"
  using assms
proof (induction es arbitrary: ps)
  case Nil
  then show ?case by simp
next
  case (Cons e es)
  from Cons.prems have "flows_pressures_ok (apply_event ps e) \<and> 0 \<le> pump_feed_health (apply_event ps e)"
    by (intro apply_event_flows_pressures_ok) simp_all
  with Cons.prems(2) show ?case
    by (simp add: Cons.IH)
qed

lemma physicsState_init_flows_pressures_ok:
  "flows_pressures_ok physicsState_init \<and> 0 \<le> pump_feed_health physicsState_init"
  by (simp add: flows_pressures_ok_def physicsState_init_def)

lemma dP_ro_of_nonneg: "0 \<le> dP_ro_of ps"
  by (simp add: dP_ro_of_def Let_def RO_FEED_RATE_def)

text \<open>A flow published above its snap-to-zero threshold, less the largest jitter.\<close>

lemma snap_lower:
  assumes "draws_ok rnd" and "0 \<le> mag" and "cond \<Longrightarrow> lo + mag / 2 \<le> x" and "lo \<le> 0"
  shows "lo \<le> fst (snap rnd k cond x mag)"
  using assms noise_bounds(1) [OF assms(1,2), of k] by (cases cond) (simp_all add: snap_fst)

lemma jitter_lower:
  assumes "draws_ok rnd" and "0 \<le> mag" and "0 \<le> x"
  shows "- (mag / 2) \<le> fst (jitter rnd k x mag)"
  using assms noise_bounds(1) [OF assms(1,2), of k] by (simp add: jitter_fst)

lemma published_flows_lower:
  assumes "draws_ok rnd"
  shows "0 \<le> Q_wellfield_pub (emit ps q r a now rnd)"
    and "0 \<le> Q_feed_pub (emit ps q r a now rnd)"
    and "0 \<le> Q_out_pub (emit ps q r a now rnd)"
    and "- (2/5) \<le> Q_perm_pub (emit ps q r a now rnd)"
    and "- (2/5) \<le> Q_brine_pub (emit ps q r a now rnd)"
proof -
  obtain k where "Q_wellfield_pub (emit ps q r a now rnd) = fst (snap rnd k (Q_wellfield ps > 1) (Q_wellfield ps) 2)"
    using emit_flows(1) by blast
  then show "0 \<le> Q_wellfield_pub (emit ps q r a now rnd)"
    using snap_lower [OF assms, of 2 "Q_wellfield ps > 1" 0 "Q_wellfield ps" k] by simp
  obtain k where "Q_feed_pub (emit ps q r a now rnd) = fst (snap rnd k (Q_feed ps > 1) (Q_feed ps) 2)"
    using emit_flows(2) by blast
  then show "0 \<le> Q_feed_pub (emit ps q r a now rnd)"
    using snap_lower [OF assms, of 2 "Q_feed ps > 1" 0 "Q_feed ps" k] by simp
  obtain k where "Q_out_pub (emit ps q r a now rnd) = fst (snap rnd k (Q_out ps > 1) (Q_out ps) 1)"
    using emit_flows(5) by blast
  then show "0 \<le> Q_out_pub (emit ps q r a now rnd)"
    using snap_lower [OF assms, of 1 "Q_out ps > 1" 0 "Q_out ps" k] by simp
  obtain k where "Q_perm_pub (emit ps q r a now rnd) = fst (snap rnd k (q > 0.1) q 1)"
    using emit_flows(3) by blast
  then show "- (2/5) \<le> Q_perm_pub (emit ps q r a now rnd)"
    using snap_lower [OF assms, of 1 "q > 0.1" "- (2/5)" q k] by simp
  obtain k where "Q_brine_pub (emit ps q r a now rnd)
      = fst (snap rnd k (Q_feed ps - q > 0.1) (Q_feed ps - q) 1)"
    using emit_flows(4) by blast
  then show "- (2/5) \<le> Q_brine_pub (emit ps q r a now rnd)"
    using snap_lower [OF assms, of 1 "Q_feed ps - q > 0.1" "- (2/5)" "Q_feed ps - q" k] by simp
qed

lemma published_pressures_lower:
  assumes "draws_ok rnd" and "flows_pressures_ok ps"
  shows "- (1/20) \<le> pressure_well_pub (emit ps q r a now rnd)"
    and "- (1/20) \<le> pressure_feed_pub (emit ps q r a now rnd)"
    and "- (1/20) \<le> pressure_dist_pub (emit ps q r a now rnd)"
    and "- (1/100) \<le> dP_ro_true_pub (emit ps q r a now rnd)"
proof -
  from assms(2) have p: "0 \<le> pressure_well ps" "0 \<le> pressure_feed ps" "0 \<le> pressure_dist ps"
    by (simp_all add: flows_pressures_ok_def)
  obtain k where "pressure_well_pub (emit ps q r a now rnd) = fst (jitter rnd k (pressure_well ps) 0.1)"
    using emit_pressures(1) by blast
  then show "- (1/20) \<le> pressure_well_pub (emit ps q r a now rnd)"
    using jitter_lower [OF assms(1) _ p(1), of "0.1" k] by simp
  obtain k where "pressure_feed_pub (emit ps q r a now rnd) = fst (jitter rnd k (pressure_feed ps) 0.1)"
    using emit_pressures(3) by blast
  then show "- (1/20) \<le> pressure_feed_pub (emit ps q r a now rnd)"
    using jitter_lower [OF assms(1) _ p(2), of "0.1" k] by simp
  obtain k where "pressure_dist_pub (emit ps q r a now rnd) = fst (jitter rnd k (pressure_dist ps) 0.1)"
    using emit_pressures(4) by blast
  then show "- (1/20) \<le> pressure_dist_pub (emit ps q r a now rnd)"
    using jitter_lower [OF assms(1) _ p(3), of "0.1" k] by simp
  obtain k where "dP_ro_true_pub (emit ps q r a now rnd) = fst (jitter rnd k (dP_ro_of ps) 0.02)"
    using emit_pressures(2) by blast
  moreover have d: "0 \<le> dP_ro_of ps"
    by (rule dP_ro_of_nonneg)
  ultimately show "- (1/100) \<le> dP_ro_true_pub (emit ps q r a now rnd)"
    using jitter_lower [OF assms(1) _ d, of "0.02" k] by simp
qed

text \<open>
  Claim C8, as amended. In every state reached from the cold start by resets and by ticks
  whose demand setpoint is not negative, the integrated flows and pressures are not negative,
  and neither are the permeate flow, the brine flow and the RO differential pressure derived
  from them before jitter. In the snapshot of a tick from such a state, for every stream of
  draws, the published \<open>Q_wellfield\<close>, \<open>Q_feed\<close> and \<open>Q_out\<close> are not negative, the published
  \<open>Q_perm\<close> and \<open>Q_brine\<close> are at least \<open>-0.4\<close>, the three published pressures at least
  \<open>-0.05\<close> and the published \<open>dP_ro_true\<close> at least \<open>-0.01\<close>.
\<close>

theorem flows_pressures_nonneg:
  assumes "\<forall>e\<in>set es. event_sp_ok e" and "0 \<le> Q_out_sp c" and "draws_ok rnd"
  shows "(let ps = run_events physicsState_init es;
              s' = fst (simulatePhysics ps c dt now rnd);
              out = snd (simulatePhysics ps c dt now rnd)
          in flows_pressures_ok ps \<and> flows_pressures_ok s'
             \<and> 0 \<le> Q_feed s' * ro_recovery \<and> 0 \<le> Q_feed s' - Q_feed s' * ro_recovery
             \<and> 0 \<le> dP_ro_of s'
             \<and> 0 \<le> Q_wellfield_pub out \<and> 0 \<le> Q_feed_pub out \<and> 0 \<le> Q_out_pub out
             \<and> - 0.4 \<le> Q_perm_pub out \<and> - 0.4 \<le> Q_brine_pub out
             \<and> - 0.05 \<le> pressure_well_pub out \<and> - 0.05 \<le> pressure_feed_pub out
             \<and> - 0.05 \<le> pressure_dist_pub out \<and> - 0.01 \<le> dP_ro_true_pub out)"
proof -
  let ?ps = "run_events physicsState_init es"
  let ?s = "fst (simulatePhysics ?ps c dt now rnd)"
  have reach: "flows_pressures_ok ?ps \<and> 0 \<le> pump_feed_health ?ps"
    by (rule run_events_flows_pressures_ok [OF physicsState_init_flows_pressures_ok assms(1)])
  then have ok: "flows_pressures_ok ?s"
    by (intro tick_flows_pressures_ok assms(2)) simp_all
  then have q: "0 \<le> Q_feed ?s"
    by (simp add: flows_pressures_ok_def)
  have derived: "0 \<le> Q_feed ?s * ro_recovery" "0 \<le> Q_feed ?s - Q_feed ?s * ro_recovery"
    using q by (simp_all add: ro_recovery_def)
  note flows = published_flows_lower [OF assms(3), of ?s]
  note pressures = published_pressures_lower [OF assms(3) ok]
  from reach ok derived dP_ro_of_nonneg [of ?s] flows pressures show ?thesis
    unfolding Let_def snd_simulatePhysics by simp
qed

lemma draws_const_ok: "0 \<le> x \<Longrightarrow> x < 1 \<Longrightarrow> draws_ok (draws_const x)"
  by (simp add: draws_ok_def draws_const_def)

theorem flows_pressures_nonneg_witness:
  "flows_pressures_ok (run_events physicsState_init [Tick S1_tick, ResetDamage])
   \<and> flows_pressures_ok
       (fst (simulatePhysics (run_events physicsState_init [Tick S1_tick, ResetDamage])
          feed_running_controls 0.1 0 (draws_const 0)))
   \<and> 0 \<le> Q_feed_pub
       (snd (simulatePhysics (run_events physicsState_init [Tick S1_tick, ResetDamage])
          feed_running_controls 0.1 0 (draws_const 0)))
   \<and> - 0.05 \<le> pressure_feed_pub
       (snd (simulatePhysics (run_events physicsState_init [Tick S1_tick, ResetDamage])
          feed_running_controls 0.1 0 (draws_const 0)))"
proof -
  have es: "\<forall>e\<in>set [Tick S1_tick, ResetDamage]. event_sp_ok e"
    by (simp add: S1_tick_def tick_controls_def S1_controls_def currentControls_init_def)
  have sp: "0 \<le> Q_out_sp feed_running_controls"
    by (simp add: feed_running_controls_def currentControls_init_def)
  have rnd: "draws_ok (draws_const 0)"
    by (simp add: draws_const_ok)
  from flows_pressures_nonneg [OF es sp rnd, of "0.1" 0] show ?thesis
    by (simp add: Let_def)
qed

text \<open>
  The claim as stated fails for the snapshot: at a cold start with every pump off the well
  pressure is 0, and a draw of 0 publishes it as \<open>-0.05\<close>.
\<close>

theorem published_pressure_negative:
  "pressure_well_pub (snd (simulatePhysics physicsState_init currentControls_init 0.1 0 (draws_const 0)))
   = - 0.05"
proof -
  let ?s = "fst (simulatePhysics physicsState_init currentControls_init 0.1 0 (draws_const 0))"
  have p: "pressure_well ?s = 0"
    by (simp add: tick_pressures well_targets_def currentControls_init_def physicsState_init_def)
  obtain k where "pressure_well_pub (snd (simulatePhysics physicsState_init currentControls_init 0.1 0 (draws_const 0)))
      = fst (jitter (draws_const 0) k (pressure_well ?s) 0.1)"
    unfolding snd_simulatePhysics using emit_pressures(1) by blast
  then show ?thesis
    by (simp add: p jitter_fst noise_def draws_const_def)
qed

section \<open>Reset of the damage\<close>

text \<open>
  Claim C9. \<open>resetDamage\<close>, from any state, sets the seven health variables to exactly 100 and
  leaves every other variable of the physics state (flows, pressures, levels, chemistry) as it
  was; two calls in succession give the state of one call. The controls are not part of the
  state the function assigns: they live in \<^verbatim>\<open>PlantApi.currentControls\<close>, which it never names.
\<close>

theorem resetDamage_effect:
  "membrane_health (resetDamage ps) = 100
   \<and> pump_well_health (resetDamage ps) = 100
   \<and> pump_feed_health (resetDamage ps) = 100
   \<and> pump_dist_health (resetDamage ps) = 100
   \<and> pipe_well_health (resetDamage ps) = 100
   \<and> pipe_feed_health (resetDamage ps) = 100
   \<and> pipe_dist_health (resetDamage ps) = 100
   \<and> Q_wellfield (resetDamage ps) = Q_wellfield ps
   \<and> Q_feed (resetDamage ps) = Q_feed ps
   \<and> Q_out (resetDamage ps) = Q_out ps
   \<and> level_feed_tank (resetDamage ps) = level_feed_tank ps
   \<and> level_clearwell (resetDamage ps) = level_clearwell ps
   \<and> pressure_well (resetDamage ps) = pressure_well ps
   \<and> pressure_feed (resetDamage ps) = pressure_feed ps
   \<and> pressure_dist (resetDamage ps) = pressure_dist ps
   \<and> TDS_feed (resetDamage ps) = TDS_feed ps
   \<and> pH_true (resetDamage ps) = pH_true ps
   \<and> Cl_true (resetDamage ps) = Cl_true ps
   \<and> H2S_feed (resetDamage ps) = H2S_feed ps
   \<and> resetDamage (resetDamage ps) = resetDamage ps"
  by (simp add: resetDamage_def Let_def)

section \<open>Cold start\<close>

text \<open>
  Claim C10, as amended. At process start the simulation module and the control store of the
  API hold the defaults: every boolean control off except the five valves, which are open;
  feed tank level 2.5, clearwell level 3.0, the seven health variables 100, feed TDS 1250 and
  pH 7.2. The third component with cold-start values, the \<open>App\<close> component, differs: its
  placeholder controls have the five valves closed, and its placeholder snapshot has levels 0,
  feed TDS 0 and pH 7.0, with the seven health variables 100.
\<close>

theorem cold_start_defaults:
  "\<not> wellfield_on currentControls_init \<and> \<not> ro_feed_pump_on currentControls_init
   \<and> \<not> dist_pump_on currentControls_init \<and> \<not> naoh_pump_on currentControls_init
   \<and> \<not> cl_pump_on currentControls_init
   \<and> valve_101_open currentControls_init \<and> valve_201_open currentControls_init
   \<and> valve_202_open currentControls_init \<and> valve_203_open currentControls_init
   \<and> valve_401_open currentControls_init
   \<and> level_feed_tank physicsState_init = 2.5 \<and> level_clearwell physicsState_init = 3.0
   \<and> membrane_health physicsState_init = 100 \<and> pump_well_health physicsState_init = 100
   \<and> pump_feed_health physicsState_init = 100 \<and> pump_dist_health physicsState_init = 100
   \<and> pipe_well_health physicsState_init = 100 \<and> pipe_feed_health physicsState_init = 100
   \<and> pipe_dist_health physicsState_init = 100
   \<and> TDS_feed physicsState_init = 1250 \<and> pH_true physicsState_init = 7.2
   \<and> \<not> wellfield_on App_controls_init \<and> \<not> ro_feed_pump_on App_controls_init
   \<and> \<not> dist_pump_on App_controls_init \<and> \<not> naoh_pump_on App_controls_init
   \<and> \<not> cl_pump_on App_controls_init
   \<and> \<not> valve_101_open App_controls_init \<and> \<not> valve_201_open App_controls_init
   \<and> \<not> valve_202_open App_controls_init \<and> \<not> valve_203_open App_controls_init
   \<and> \<not> valve_401_open App_controls_init
   \<and> level_feed_tank_pub App_simState_init = 0 \<and> level_clearwell_pub App_simState_init = 0
   \<and> TDS_feed_pub App_simState_init = 0 \<and> pH_true_pub App_simState_init = 7.0
   \<and> membrane_health_pub App_simState_init = 100 \<and> pump_well_health_pub App_simState_init = 100
   \<and> pump_feed_health_pub App_simState_init = 100 \<and> pump_dist_health_pub App_simState_init = 100
   \<and> pipe_well_health_pub App_simState_init = 100 \<and> pipe_feed_health_pub App_simState_init = 100
   \<and> pipe_dist_health_pub App_simState_init = 100"
  by (simp add: currentControls_init_def physicsState_init_def App_controls_init_def
      App_simState_init_def)

text \<open>
  The claim as stated fails in the \<open>App\<close> component: its cold-start controls do not have the
  five valves open.
\<close>

theorem cold_start_App_valves_closed:
  "\<not> (valve_101_open App_controls_init \<and> valve_201_open App_controls_init
      \<and> valve_202_open App_controls_init \<and> valve_203_open App_controls_init
      \<and> valve_401_open App_controls_init)"
  by (simp add: App_controls_init_def)

end
